theory Spec2Isabelle
  imports Complex_Main "HOL-Library.Word"
begin

section \<open>Data model (chat/models.py)\<close>

text \<open>
  Primary keys are UUIDs; they are modelled as natural numbers. Timestamps are integers
  (seconds), so that \<open>timedelta(days=d)\<close> is \<open>d * 86400\<close>. A foreign key is the id of
  the row it points to; a nullable one is an \<open>option\<close>. Python strings are
  \<open>string\<close>s, one \<open>char\<close> per code point. The role of a message is the name of its
  \<open>Role\<close> row, the only field the code reads (\<open>msg.role.name\<close>); \<open>None\<close> is a
  missing role, which the database refuses on write (the column is NOT NULL).
\<close>

type_synonym uuid = nat
type_synonym timestamp = int

record conversation =
  c_id :: uuid
  title :: string
  c_created_at :: timestamp
  modified_at :: timestamp
  active_version :: "uuid option"
  deleted_at :: "timestamp option"
  c_user :: nat
  summary :: "string option"
  summary_generated_at :: "timestamp option"
  is_summary_stale :: bool

record version =
  v_id :: uuid
  v_conversation :: uuid
  parent_version :: "uuid option"
  root_message :: "uuid option"

record message =
  m_id :: uuid
  content :: string
  m_role :: "string option"
  m_created_at :: timestamp
  m_version :: uuid

text \<open>An uploaded blob: its name and the chunks that \<open>file_obj.chunks()\<close> yields.\<close>

record file_obj =
  file_name :: string
  file_chunks :: "8 word list list"

record uploaded_file =
  f_id :: uuid
  f_user :: nat
  f_conversation :: "uuid option"
  f_file :: file_obj
  filename :: string
  file_size :: nat
  file_type :: string
  file_hash :: string
  status :: string
  uploaded_at :: timestamp
  processed_at :: "timestamp option"
  error_message :: "string option"
  mime_type :: "string option"
  page_count :: "int option"
  is_indexed :: bool

text \<open>
  The database tables, in insertion order, and the cache: an association list from the
  conversation id (the variable part of the key \<open>conversation_summary_<id>\<close>) to the
  cached text and its timeout.
\<close>

record store =
  conversations :: "conversation list"
  versions :: "version list"
  messages :: "message list"
  uploaded_files :: "uploaded_file list"
  cache :: "(uuid \<times> string \<times> nat) list"

datatype error =
    AttributeError
  | DoesNotExist
  | MultipleObjectsReturned
  | KeyError
  | ValidationError string
  | IntegrityError
  | DatabaseError
  | SummarizerError

section \<open>The ORM operations the code calls\<close>

text \<open>\<open>Model.objects.get(...)\<close>: the one matching row, or an exception.\<close>

definition objects_get :: "('a \<Rightarrow> bool) \<Rightarrow> 'a list \<Rightarrow> error + 'a" where
  "objects_get P rows =
     (case filter P rows of
        [] \<Rightarrow> Inl DoesNotExist
      | [x] \<Rightarrow> Inr x
      | _ \<Rightarrow> Inl MultipleObjectsReturned)"

definition row_exists :: "('a \<Rightarrow> bool) \<Rightarrow> 'a list \<Rightarrow> bool" where
  "row_exists P rows = (filter P rows \<noteq> [])"

text \<open>
  \<open>Model.save()\<close> of a whole row: an UPDATE of the row with this primary key, or an
  INSERT when there is none. The result says whether the row was created.
\<close>

definition save_row :: "('a \<Rightarrow> uuid) \<Rightarrow> 'a \<Rightarrow> 'a list \<Rightarrow> bool \<times> 'a list" where
  "save_row key r rows =
     (if row_exists (\<lambda>x. key x = key r) rows
      then (False, map (\<lambda>x. if key x = key r then r else x) rows)
      else (True, rows @ [r]))"

section \<open>Attributes the summary code reads that the models do not define\<close>

text \<open>
  \<open>Message\<close> (models.py, lines 71 to 86) has the fields \<open>id\<close>, \<open>content\<close>, \<open>role\<close>,
  \<open>created_at\<close> and \<open>version\<close>, and no attribute \<open>conversation\<close>. The reverse accessor
  \<open>messages\<close> is declared by \<open>Message.version\<close> (\<open>related_name="messages"\<close>, line 76),
  so it belongs to \<open>Version\<close>; \<open>Conversation\<close> (lines 15 to 53) gets \<open>versions\<close>
  (line 58) and \<open>files\<close> (line 113) only. Reading \<open>instance.conversation\<close> on a message,
  or \<open>conversation.messages\<close> on a conversation, therefore raises \<open>AttributeError\<close>.
  The counting path that works is in serializers.py (line 175):
  \<open>Message.objects.filter(version__conversation=obj)\<close>.
\<close>

definition Message_conversation :: "store \<Rightarrow> message \<Rightarrow> error + conversation" where
  "Message_conversation s m = Inl AttributeError"

definition Conversation_messages :: "store \<Rightarrow> conversation \<Rightarrow> error + message list" where
  "Conversation_messages s c = Inl AttributeError"

text \<open>The messages of a conversation, as the serializer's working query finds them.\<close>

definition messages_of_conversation :: "store \<Rightarrow> uuid \<Rightarrow> message list" where
  "messages_of_conversation s cid =
     filter (\<lambda>m. \<exists>v \<in> set (versions s). v_id v = m_version m \<and> v_conversation v = cid)
       (messages s)"

section \<open>Summary service (chat/summary_service.py)\<close>

text \<open>
  The request sent to \<open>openai.ChatCompletion.create\<close>. The summarizer is a parameter:
  it answers with the text of \<open>response['choices'][0]['message']['content']\<close>, or with
  an error when the call raises or the response has no such entry.
\<close>

record request =
  engine :: string
  system_content :: string
  user_content :: string
  max_tokens :: nat
  temperature :: rat

type_synonym summarizer = "request \<Rightarrow> error + string"

definition MAX_TOKENS :: nat where "MAX_TOKENS = 200"
definition SUMMARY_CACHE_TIMEOUT :: nat where "SUMMARY_CACHE_TIMEOUT = 3600"
definition MIN_MESSAGES_FOR_SUMMARY :: nat where "MIN_MESSAGES_FOR_SUMMARY = 3"

text \<open>\<open>str.isspace\<close> on the code points below 256, and \<open>str.strip()\<close>.\<close>

definition isspace :: "char \<Rightarrow> bool" where
  "isspace ch = (of_char ch \<in> {9, 10, 11, 12, 13, 28, 29, 30, 31, 32, 133, 160 :: nat})"

definition strip :: "string \<Rightarrow> string" where
  "strip t = rev (dropWhile isspace (rev (dropWhile isspace t)))"

text \<open>\<open>sep.join(parts)\<close>.\<close>

fun join :: "string \<Rightarrow> string list \<Rightarrow> string" where
  "join sep [] = []"
| "join sep [x] = x"
| "join sep (x # y # ys) = x @ sep @ join sep (y # ys)"

definition transcript_line :: "message \<Rightarrow> string" where
  "transcript_line msg =
     (if m_role msg = Some ''user'' then ''User'' else ''Assistant'') @ '': '' @ take 200 (content msg)"

definition build_context :: "message list \<Rightarrow> string" where
  "build_context msgs =
     join [CHR 0x0A] (map transcript_line (take 10 (sort_key m_created_at msgs)))"

definition summary_request :: "string \<Rightarrow> request" where
  "summary_request context =
     \<lparr> engine = ''gpt-35-turbo'',
       system_content = ''Provide a concise 2-3 sentence summary of the conversation.'',
       user_content = ''Conversation to summarize:'' @ [CHR 0x0A, CHR 0x0A] @ context,
       max_tokens = MAX_TOKENS,
       temperature = 3 / 10 \<rparr>"

text \<open>
  The body of \<open>generate_summary\<close> (lines 31 to 64) once \<open>conversation.messages\<close> has
  been read: the count check, the transcript, the call and the strip.
\<close>

definition generate_summary_from :: "summarizer \<Rightarrow> message list \<Rightarrow> string option" where
  "generate_summary_from summarize msgs =
     (if length msgs < MIN_MESSAGES_FOR_SUMMARY then None
      else case summarize (summary_request (build_context msgs)) of
             Inl e \<Rightarrow> None
           | Inr text \<Rightarrow> Some (strip text))"

text \<open>
  \<open>generate_summary\<close>: the whole body is inside \<open>try\<close>, and both \<open>except\<close> clauses
  return \<open>None\<close>, so the exception of the attribute read is absorbed as well.
\<close>

definition generate_summary :: "summarizer \<Rightarrow> store \<Rightarrow> conversation \<Rightarrow> string option" where
  "generate_summary summarize s conv =
     (case Conversation_messages s conv of
        Inl e \<Rightarrow> None
      | Inr msgs \<Rightarrow> generate_summary_from summarize msgs)"

text \<open>\<open>cache.set(key, value, timeout)\<close>.\<close>

definition cache_set :: "uuid \<Rightarrow> string \<Rightarrow> nat \<Rightarrow> store \<Rightarrow> store" where
  "cache_set k v ttl s = s\<lparr>cache := (k, v, ttl) # filter (\<lambda>e. fst e \<noteq> k) (cache s)\<rparr>"

text \<open>
  \<open>conversation.save(update_fields=['summary', 'summary_generated_at',
  'is_summary_stale'])\<close>: an UPDATE of these three columns; Django raises
  \<open>DatabaseError\<close> when no row has the primary key.
\<close>

definition save_summary_fields :: "conversation \<Rightarrow> store \<Rightarrow> error + store" where
  "save_summary_fields conv s =
     (if row_exists (\<lambda>c. c_id c = c_id conv) (conversations s)
      then Inr (s\<lparr>conversations :=
                   map (\<lambda>c. if c_id c = c_id conv
                            then c\<lparr>summary := summary conv,
                                   summary_generated_at := summary_generated_at conv,
                                   is_summary_stale := is_summary_stale conv\<rparr>
                            else c) (conversations s)\<rparr>)
      else Inl DatabaseError)"

text \<open>
  The body of \<open>update_conversation_summary\<close> after \<open>generate_summary\<close> has answered.
  The result is the boolean returned, the conversation object as the caller sees it
  afterwards, and the store. \<open>if summary:\<close> is false for \<open>None\<close> and for the empty string.
\<close>

definition store_summary ::
  "timestamp \<Rightarrow> string option \<Rightarrow> conversation \<Rightarrow> store \<Rightarrow> bool \<times> conversation \<times> store" where
  "store_summary now generated conv s =
     (case generated of
        None \<Rightarrow> (False, conv, s)
      | Some body \<Rightarrow>
          (if body = [] then (False, conv, s)
           else
             (let conv' = conv\<lparr>summary := Some body,
                              summary_generated_at := Some now,
                              is_summary_stale := False\<rparr>
              in (case save_summary_fields conv' s of
                    Inl e \<Rightarrow> (False, conv', s)
                  | Inr s' \<Rightarrow>
                      (True, conv', cache_set (c_id conv) body SUMMARY_CACHE_TIMEOUT s')))))"

definition update_conversation_summary ::
  "summarizer \<Rightarrow> timestamp \<Rightarrow> conversation \<Rightarrow> store \<Rightarrow> bool \<times> conversation \<times> store" where
  "update_conversation_summary summarize now conv s =
     store_summary now (generate_summary summarize s conv) conv s"

section \<open>Saving conversations and messages (chat/models.py, chat/signals.py)\<close>

text \<open>
  The receivers of chat/signals.py are registered by \<open>@receiver(post_save, ...)\<close> when
  the module is imported; the import itself is in the application's \<open>apps.py\<close>, which is
  not among these files, and is taken from the trigger protocol of the specification
  (section 4.2: the receivers run on every save). \<open>Signal.send\<close> calls them inside
  \<open>Model.save\<close> and lets their exceptions propagate to the caller of \<open>save\<close>.
\<close>

definition handle_conversation_save :: "conversation \<Rightarrow> bool \<Rightarrow> store \<Rightarrow> conversation \<times> store" where
  "handle_conversation_save instance created s =
     (if created
      then (instance\<lparr>is_summary_stale := True\<rparr>,
            s\<lparr>conversations :=
                map (\<lambda>c. if c_id c = c_id instance then c\<lparr>is_summary_stale := True\<rparr> else c)
                  (conversations s)\<rparr>)
      else (instance, s))"

text \<open>
  \<open>Conversation.save()\<close>: \<open>modified_at\<close> is \<open>auto_now\<close>, \<open>created_at\<close> is
  \<open>auto_now_add\<close> (set when the row is inserted); then the \<open>post_save\<close> receiver.
\<close>

definition Conversation_save :: "timestamp \<Rightarrow> conversation \<Rightarrow> store \<Rightarrow> conversation \<times> store" where
  "Conversation_save now conv s =
     (let conv' = (if row_exists (\<lambda>c. c_id c = c_id conv) (conversations s)
                   then conv\<lparr>modified_at := now\<rparr>
                   else conv\<lparr>c_created_at := now, modified_at := now\<rparr>);
          (created, rows) = save_row c_id conv' (conversations s)
      in handle_conversation_save conv' created (s\<lparr>conversations := rows\<rparr>))"

text \<open>
  \<open>Conversation.objects.create(**kwargs)\<close>: the field defaults of the model
  (\<open>is_summary_stale\<close> has \<open>default=False\<close>, line 37), the keyword arguments, and
  \<open>save(force_insert=True)\<close>, which the database refuses when the primary key is
  taken, as it refuses a row without a user (NOT NULL). \<open>new_id\<close> is the value
  \<open>uuid.uuid4()\<close> draws.
\<close>

definition Conversation_defaults :: "uuid \<Rightarrow> conversation" where
  "Conversation_defaults new_id =
     \<lparr> c_id = new_id, title = ''Mock title'', c_created_at = 0, modified_at = 0,
       active_version = None, deleted_at = None, c_user = 0, summary = None,
       summary_generated_at = None, is_summary_stale = False \<rparr>"

definition Conversation_objects_create ::
  "timestamp \<Rightarrow> uuid \<Rightarrow> string option \<Rightarrow> uuid option \<Rightarrow> nat option \<Rightarrow> store \<Rightarrow> (error + conversation) \<times> store" where
  "Conversation_objects_create now new_id title_arg active_version_arg user_arg s =
     (case user_arg of
        None \<Rightarrow> (Inl IntegrityError, s)
      | Some u \<Rightarrow>
          (let d = Conversation_defaults new_id;
               conv = d\<lparr>title := (case title_arg of Some t \<Rightarrow> t | None \<Rightarrow> title d),
                        active_version := active_version_arg,
                        c_user := u\<rparr>
           in if row_exists (\<lambda>c. c_id c = new_id) (conversations s) then (Inl IntegrityError, s)
              else (case Conversation_save now conv s of (conv', s') \<Rightarrow> (Inr conv', s'))))"

text \<open>
  \<open>regenerate_summary_on_message_save\<close>: \<open>created and instance.conversation\<close> reads
  the attribute only when \<open>created\<close> is true. The result is the exception that leaves
  the receiver, if any.
\<close>

definition regenerate_summary_on_message_save ::
  "summarizer \<Rightarrow> timestamp \<Rightarrow> message \<Rightarrow> bool \<Rightarrow> store \<Rightarrow> error option \<times> store" where
  "regenerate_summary_on_message_save summarize now instance created s =
     (if \<not> created then (None, s)
      else case Message_conversation s instance of
             Inl e \<Rightarrow> (Some e, s)
           | Inr conv \<Rightarrow>
               (case Conversation_messages s conv of
                  Inl e \<Rightarrow> (Some e, s)
                | Inr msgs \<Rightarrow>
                    if length msgs \<ge> MIN_MESSAGES_FOR_SUMMARY
                    then (None, snd (snd (update_conversation_summary summarize now conv s)))
                    else (None, s)))"

text \<open>
  The write of the message row (\<open>super().save()\<close>): an INSERT under
  \<open>force_insert\<close> (as \<open>objects.create\<close> passes it), refused when the primary key is
  taken; otherwise an UPDATE, or an INSERT when the row is new. \<open>created_at\<close> is
  \<open>auto_now_add\<close>. A row without a role violates NOT NULL.
\<close>

definition Message_write :: "timestamp \<Rightarrow> bool \<Rightarrow> message \<Rightarrow> store \<Rightarrow> error + (bool \<times> message \<times> store)" where
  "Message_write now force_insert msg s =
     (if m_role msg = None then Inl IntegrityError
      else if row_exists (\<lambda>m. m_id m = m_id msg) (messages s)
      then (if force_insert then Inl IntegrityError
            else Inr (False, msg, s\<lparr>messages := snd (save_row m_id msg (messages s))\<rparr>))
      else (let msg' = msg\<lparr>m_created_at := now\<rparr>
            in Inr (True, msg', s\<lparr>messages := messages s @ [msg']\<rparr>)))"

text \<open>
  \<open>Message.save\<close> (lines 81 to 83): \<open>self.version.conversation.save()\<close>, then the
  write of the row, then the \<open>post_save\<close> receiver. The second component is the store
  as the call leaves it, also when it raises.
\<close>

definition Message_save ::
  "summarizer \<Rightarrow> timestamp \<Rightarrow> bool \<Rightarrow> message \<Rightarrow> store \<Rightarrow> (error + message) \<times> store" where
  "Message_save summarize now force_insert msg s =
     (case objects_get (\<lambda>v. v_id v = m_version msg) (versions s) of
        Inl e \<Rightarrow> (Inl e, s)
      | Inr v \<Rightarrow>
          (case objects_get (\<lambda>c. c_id c = v_conversation v) (conversations s) of
             Inl e \<Rightarrow> (Inl e, s)
           | Inr conv \<Rightarrow>
               (let s1 = snd (Conversation_save now conv s)
                in case Message_write now force_insert msg s1 of
                     Inl e \<Rightarrow> (Inl e, s1)
                   | Inr (created, msg', s2) \<Rightarrow>
                       (case regenerate_summary_on_message_save summarize now msg' created s2 of
                          (Some e, s3) \<Rightarrow> (Inl e, s3)
                        | (None, s3) \<Rightarrow> (Inr msg', s3)))))"

text \<open>
  \<open>Message.objects.create(version=..., content=..., role=...)\<close>, the append of a
  message: \<open>new_id\<close> is the value \<open>uuid.uuid4()\<close> draws.
\<close>

definition Message_objects_create ::
  "summarizer \<Rightarrow> timestamp \<Rightarrow> uuid \<Rightarrow> uuid \<Rightarrow> string \<Rightarrow> string option \<Rightarrow> store \<Rightarrow> (error + message) \<times> store" where
  "Message_objects_create summarize now new_id version_arg content_arg role_arg s =
     Message_save summarize now True
       \<lparr> m_id = new_id, content = content_arg, m_role = role_arg, m_created_at = 0,
         m_version = version_arg \<rparr> s"

section \<open>Serializers (chat/serializers.py)\<close>

text \<open>
  The validated data are dictionaries. A key that may be missing is an \<open>option\<close>
  (\<open>None\<close>: the key is absent); a key whose value may be \<open>None\<close> is an option of an
  option. \<open>active_version\<close> is a related field of the model serializer, so its
  validated value is the \<open>Version\<close> object the primary key names, not the key. \<open>md_uuid\<close> and \<open>vd_uuid\<close> are the values \<open>uuid.uuid4()\<close> draws if the entry
  creates a row.
\<close>

record message_data =
  md_id :: "uuid option"
  md_content :: "string option"
  md_role :: "string option"
  md_uuid :: uuid

record version_data =
  vd_id :: "uuid option"
  vd_conversation :: "uuid option option"
  vd_parent_version :: "uuid option option"
  vd_root_message :: "uuid option option"
  vd_messages :: "message_data list option"
  vd_uuid :: uuid

record conversation_data =
  cd_title :: "string option"
  cd_active_version :: "version option option"
  cd_user :: "nat option"
  cd_versions :: "version_data list"

text \<open>\<open>validated_data.get(key, default)\<close>.\<close>

definition dict_get :: "'a option \<Rightarrow> 'a \<Rightarrow> 'a" where
  "dict_get entry dflt = (case entry of None \<Rightarrow> dflt | Some v \<Rightarrow> v)"

text \<open>
  \<open>should_serialize\<close>: true when \<open>validated_data.get(field_name)\<close> is not \<open>None\<close>
  (the source falls off the end otherwise, which \<open>any\<close> reads as false).
\<close>

definition should_serialize :: "'a option option \<Rightarrow> bool" where
  "should_serialize entry = (case entry of Some (Some v) \<Rightarrow> True | _ \<Rightarrow> False)"

text \<open>
  The write of a version row. The foreign keys must point to rows, and
  \<open>conversation\<close> is NOT NULL.
\<close>

definition version_row_ok :: "uuid \<Rightarrow> uuid option \<Rightarrow> uuid option \<Rightarrow> store \<Rightarrow> bool" where
  "version_row_ok conv parent_arg root_arg s =
     (row_exists (\<lambda>x. c_id x = conv) (conversations s) \<and>
      (case parent_arg of None \<Rightarrow> True | Some p \<Rightarrow> row_exists (\<lambda>x. v_id x = p) (versions s)) \<and>
      (case root_arg of None \<Rightarrow> True | Some r \<Rightarrow> row_exists (\<lambda>x. m_id x = r) (messages s)))"

definition Version_save ::
  "uuid \<Rightarrow> uuid option \<Rightarrow> uuid option \<Rightarrow> uuid option \<Rightarrow> store \<Rightarrow> error + (version \<times> store)" where
  "Version_save vid conv_arg parent_arg root_arg s =
     (case conv_arg of
        None \<Rightarrow> Inl IntegrityError
      | Some conv \<Rightarrow>
          if \<not> version_row_ok conv parent_arg root_arg s then Inl IntegrityError
          else (let v = \<lparr> v_id = vid, v_conversation = conv, parent_version = parent_arg,
                          root_message = root_arg \<rparr>
                in Inr (v, s\<lparr>versions := snd (save_row v_id v (versions s))\<rparr>)))"

definition Version_objects_create ::
  "uuid \<Rightarrow> uuid option \<Rightarrow> uuid option \<Rightarrow> uuid option \<Rightarrow> store \<Rightarrow> error + (version \<times> store)" where
  "Version_objects_create new_id conv parent_arg root_arg s =
     (if row_exists (\<lambda>x. v_id x = new_id) (versions s) then Inl IntegrityError
      else Version_save new_id conv parent_arg root_arg s)"

text \<open>
  \<open>MessageSerializer.create\<close> and the loop of \<open>VersionSerializer.create\<close>:
  \<open>Message.objects.create(version=version, **message_data)\<close> for each entry. An
  exception ends the loop; the rows written before it stay.
\<close>

definition message_data_create ::
  "summarizer \<Rightarrow> timestamp \<Rightarrow> uuid \<Rightarrow> message_data \<Rightarrow> store \<Rightarrow> (error + message) \<times> store" where
  "message_data_create summarize now vid md s =
     Message_objects_create summarize now (dict_get (md_id md) (md_uuid md)) vid
       (dict_get (md_content md) []) (md_role md) s"

fun create_messages ::
  "summarizer \<Rightarrow> timestamp \<Rightarrow> uuid \<Rightarrow> message_data list \<Rightarrow> store \<Rightarrow> error option \<times> store" where
  "create_messages summarize now vid [] s = (None, s)"
| "create_messages summarize now vid (md # rest) s =
     (case message_data_create summarize now vid md s of
        (Inl e, s') \<Rightarrow> (Some e, s')
      | (Inr m, s') \<Rightarrow> create_messages summarize now vid rest s')"

definition VersionSerializer_create ::
  "summarizer \<Rightarrow> timestamp \<Rightarrow> version_data \<Rightarrow> store \<Rightarrow> (error + version) \<times> store" where
  "VersionSerializer_create summarize now vd s =
     (case vd_messages vd of
        None \<Rightarrow> (Inl KeyError, s)
      | Some messages_data \<Rightarrow>
          (case Version_objects_create (dict_get (vd_id vd) (vd_uuid vd))
                  (dict_get (vd_conversation vd) None) (dict_get (vd_parent_version vd) None)
                  (dict_get (vd_root_message vd) None) s of
             Inl e \<Rightarrow> (Inl e, s)
           | Inr (version, s1) \<Rightarrow>
               (case create_messages summarize now (v_id version) messages_data s1 of
                  (Some e, s2) \<Rightarrow> (Inl e, s2)
                | (None, s2) \<Rightarrow> (Inr version, s2))))"

text \<open>
  The loop of \<open>VersionSerializer.update\<close> (lines 102 to 109): an entry with an id
  updates the message of this version with that id, an entry without one appends.
\<close>

definition message_data_update ::
  "summarizer \<Rightarrow> timestamp \<Rightarrow> version \<Rightarrow> message_data \<Rightarrow> store \<Rightarrow> (error + message) \<times> store" where
  "message_data_update summarize now instance md s =
     (case md_id md of
        Some mid \<Rightarrow>
          (case objects_get (\<lambda>m. m_id m = mid \<and> m_version m = v_id instance) (messages s) of
             Inl e \<Rightarrow> (Inl e, s)
           | Inr msg \<Rightarrow>
               Message_save summarize now False
                 (msg\<lparr>content := dict_get (md_content md) (content msg),
                      m_role := (case md_role md of None \<Rightarrow> m_role msg | Some r \<Rightarrow> Some r)\<rparr>) s)
      | None \<Rightarrow> message_data_create summarize now (v_id instance) md s)"

fun update_messages ::
  "summarizer \<Rightarrow> timestamp \<Rightarrow> version \<Rightarrow> message_data list \<Rightarrow> store \<Rightarrow> error option \<times> store" where
  "update_messages summarize now instance [] s = (None, s)"
| "update_messages summarize now instance (md # rest) s =
     (case message_data_update summarize now instance md s of
        (Inl e, s') \<Rightarrow> (Some e, s')
      | (Inr m, s') \<Rightarrow> update_messages summarize now instance rest s')"

definition version_fields_message :: string where
  "version_fields_message =
     ''At least one of the following fields must be provided: conversation, parent_version, root_message''"

text \<open>
  \<open>VersionSerializer.update\<close> (lines 85 to 111). The three assignments change the
  object in memory only; the check comes before \<open>instance.save()\<close>.
\<close>

definition VersionSerializer_update ::
  "summarizer \<Rightarrow> timestamp \<Rightarrow> version \<Rightarrow> version_data \<Rightarrow> store \<Rightarrow> (error + version) \<times> store" where
  "VersionSerializer_update summarize now instance vd s =
     (let conv = dict_get (vd_conversation vd) (Some (v_conversation instance));
          parent_arg = dict_get (vd_parent_version vd) (parent_version instance);
          root_arg = dict_get (vd_root_message vd) (root_message instance)
      in if \<not> (should_serialize (vd_conversation vd) \<or> should_serialize (vd_parent_version vd)
                \<or> should_serialize (vd_root_message vd))
         then (Inl (ValidationError version_fields_message), s)
         else (case Version_save (v_id instance) conv parent_arg root_arg s of
                 Inl e \<Rightarrow> (Inl e, s)
               | Inr (instance', s1) \<Rightarrow>
                   (case update_messages summarize now instance' (dict_get (vd_messages vd) []) s1 of
                      (Some e, s2) \<Rightarrow> (Inl e, s2)
                    | (None, s2) \<Rightarrow> (Inr instance', s2))))"

text \<open>
  \<open>version_serializer.save(conversation=c)\<close> adds the conversation to the validated
  data and calls \<open>update\<close> when the serializer was built on an instance, \<open>create\<close>
  otherwise. \<open>is_valid\<close>, the validation of the framework, is a parameter.
\<close>

definition VersionSerializer_save ::
  "summarizer \<Rightarrow> timestamp \<Rightarrow> version option \<Rightarrow> version_data \<Rightarrow> uuid \<Rightarrow> store
     \<Rightarrow> (error + version) \<times> store" where
  "VersionSerializer_save summarize now instance vd conv s =
     (let vd' = vd\<lparr>vd_conversation := Some (Some conv)\<rparr>
      in case instance of
           Some version \<Rightarrow> VersionSerializer_update summarize now version vd' s
         | None \<Rightarrow> VersionSerializer_create summarize now vd' s)"

text \<open>The loop of \<open>ConversationSerializer.create\<close> (lines 130 to 133).\<close>

fun create_versions ::
  "(version_data \<Rightarrow> bool) \<Rightarrow> summarizer \<Rightarrow> timestamp \<Rightarrow> uuid \<Rightarrow> version_data list \<Rightarrow> store
     \<Rightarrow> error option \<times> store" where
  "create_versions is_valid summarize now conv [] s = (None, s)"
| "create_versions is_valid summarize now conv (vd # rest) s =
     (if is_valid vd
      then (case VersionSerializer_save summarize now None vd conv s of
              (Inl e, s') \<Rightarrow> (Some e, s')
            | (Inr v, s') \<Rightarrow> create_versions is_valid summarize now conv rest s')
      else create_versions is_valid summarize now conv rest s)"

definition ConversationSerializer_create ::
  "(version_data \<Rightarrow> bool) \<Rightarrow> summarizer \<Rightarrow> timestamp \<Rightarrow> uuid \<Rightarrow> conversation_data \<Rightarrow> store
     \<Rightarrow> (error + conversation) \<times> store" where
  "ConversationSerializer_create is_valid summarize now new_id d s =
     (case Conversation_objects_create now new_id (cd_title d)
             (map_option v_id (dict_get (cd_active_version d) None)) (cd_user d) s of
        (Inl e, s1) \<Rightarrow> (Inl e, s1)
      | (Inr conv, s1) \<Rightarrow>
          (case create_versions is_valid summarize now (c_id conv) (cd_versions d) s1 of
             (Some e, s2) \<Rightarrow> (Inl e, s2)
           | (None, s2) \<Rightarrow> (Inr conv, s2)))"

text \<open>The loop of \<open>ConversationSerializer.update\<close> (lines 146 to 153).\<close>

definition upsert_version ::
  "(version_data \<Rightarrow> bool) \<Rightarrow> summarizer \<Rightarrow> timestamp \<Rightarrow> uuid \<Rightarrow> version_data \<Rightarrow> store
     \<Rightarrow> error option \<times> store" where
  "upsert_version is_valid summarize now conv vd s =
     (case vd_id vd of
        Some vid \<Rightarrow>
          (case objects_get (\<lambda>v. v_id v = vid \<and> v_conversation v = conv) (versions s) of
             Inl e \<Rightarrow> (Some e, s)
           | Inr version \<Rightarrow>
               if is_valid vd
               then (case VersionSerializer_save summarize now (Some version) vd conv s of
                       (Inl e, s') \<Rightarrow> (Some e, s')
                     | (Inr v, s') \<Rightarrow> (None, s'))
               else (None, s))
      | None \<Rightarrow>
          if is_valid vd
          then (case VersionSerializer_save summarize now None vd conv s of
                  (Inl e, s') \<Rightarrow> (Some e, s')
                | (Inr v, s') \<Rightarrow> (None, s'))
          else (None, s))"

fun upsert_versions ::
  "(version_data \<Rightarrow> bool) \<Rightarrow> summarizer \<Rightarrow> timestamp \<Rightarrow> uuid \<Rightarrow> version_data list \<Rightarrow> store
     \<Rightarrow> error option \<times> store" where
  "upsert_versions is_valid summarize now conv [] s = (None, s)"
| "upsert_versions is_valid summarize now conv (vd # rest) s =
     (case upsert_version is_valid summarize now conv vd s of
        (Some e, s') \<Rightarrow> (Some e, s')
      | (None, s') \<Rightarrow> upsert_versions is_valid summarize now conv rest s')"

text \<open>
  \<open>instance.active_version\<close>: the foreign key read as an attribute gives the
  \<open>Version\<close> object of the stored key, or \<open>None\<close>.
\<close>

definition Conversation_active_version :: "store \<Rightarrow> conversation \<Rightarrow> error + version option" where
  "Conversation_active_version s instance =
     (case active_version instance of
        None \<Rightarrow> Inr None
      | Some vid \<Rightarrow>
          (case objects_get (\<lambda>v. v_id v = vid) (versions s) of
             Inl e \<Rightarrow> Inl e
           | Inr v \<Rightarrow> Inr (Some v)))"

text \<open>
  \<open>Version.objects.get(id=active_version_id)\<close> (line 141). What the code calls
  \<open>active_version_id\<close> is a \<open>Version\<close> object, from the validated data or from
  \<open>instance.active_version\<close>; the \<open>id\<close> column is a \<open>UUIDField\<close>, which refuses a
  value that is no UUID with a \<open>ValidationError\<close> before any row is looked up. The
  message of Django quotes the value and ends with the words kept here. The lookup of
  line 148 is given the UUID of the data, and names the conversation as well.
\<close>

definition not_a_valid_uuid :: string where
  "not_a_valid_uuid = ''is not a valid UUID.''"

definition Version_objects_get_id :: "version \<Rightarrow> store \<Rightarrow> error + version" where
  "Version_objects_get_id id_arg s = Inl (ValidationError not_a_valid_uuid)"

definition resolve_active_version ::
  "conversation \<Rightarrow> version option \<Rightarrow> store \<Rightarrow> error + conversation" where
  "resolve_active_version instance active_version_id s =
     (case active_version_id of
        None \<Rightarrow> Inr instance
      | Some obj \<Rightarrow>
          (case Version_objects_get_id obj s of
             Inl e \<Rightarrow> Inl e
           | Inr v \<Rightarrow> Inr (instance\<lparr>active_version := Some (v_id v)\<rparr>)))"

text \<open>
  \<open>ConversationSerializer.update\<close> (lines 137 to 155). The default
  \<open>instance.active_version\<close> is an argument of \<open>get\<close>, so it is read whether the key
  is present or not.
\<close>

definition ConversationSerializer_update ::
  "(version_data \<Rightarrow> bool) \<Rightarrow> summarizer \<Rightarrow> timestamp \<Rightarrow> conversation \<Rightarrow> conversation_data \<Rightarrow> store
     \<Rightarrow> (error + conversation) \<times> store" where
  "ConversationSerializer_update is_valid summarize now instance d s =
     (let instance1 = instance\<lparr>title := dict_get (cd_title d) (title instance)\<rparr>
      in case Conversation_active_version s instance of
           Inl e \<Rightarrow> (Inl e, s)
         | Inr current \<Rightarrow>
             (case resolve_active_version instance1 (dict_get (cd_active_version d) current) s of
                Inl e \<Rightarrow> (Inl e, s)
              | Inr instance2 \<Rightarrow>
                  (case Conversation_save now instance2 s of
                     (instance3, s1) \<Rightarrow>
                       (case upsert_versions is_valid summarize now (c_id instance3)
                               (cd_versions d) s1 of
                          (Some e, s2) \<Rightarrow> (Inl e, s2)
                        | (None, s2) \<Rightarrow> (Inr instance3, s2)))))"

section \<open>Retention cleanup (chat/tasks.py, cleanup_conversations.py)\<close>

definition timedelta_days :: "int \<Rightarrow> int" where
  "timedelta_days d = d * 86400"

text \<open>
  \<open>QuerySet.delete()\<close> collects the rows of the queryset and what their deletion
  cascades to. \<open>Version.conversation\<close> and \<open>Message.version\<close> are \<open>CASCADE\<close>, and
  so is \<open>Conversation.active_version\<close> (models.py, line 21): a conversation whose
  active version is deleted goes with it. \<open>collect_conversations\<close> closes a list of
  conversation ids under that rule.
\<close>

definition cascaded_conversations :: "store \<Rightarrow> uuid list \<Rightarrow> conversation list" where
  "cascaded_conversations s cids =
     filter (\<lambda>c. c_id c \<notin> set cids \<and>
                 (case active_version c of
                    None \<Rightarrow> False
                  | Some vid \<Rightarrow> \<exists>v \<in> set (versions s). v_id v = vid \<and> v_conversation v \<in> set cids))
       (conversations s)"

function collect_conversations :: "store \<Rightarrow> uuid list \<Rightarrow> uuid list" where
  "collect_conversations s cids =
     (if cascaded_conversations s cids = [] then cids
      else collect_conversations s (cids @ map c_id (cascaded_conversations s cids)))"
  by pat_completeness auto

termination
proof (relation "measure (\<lambda>(s, cids). card (c_id ` set (conversations s) - set cids))")
  show "wf (measure (\<lambda>(s, cids). card (c_id ` set (conversations s) - set cids)))"
    by simp
next
  fix s :: store and cids :: "uuid list"
  assume ne: "cascaded_conversations s cids \<noteq> []"
  then obtain c where c: "c \<in> set (cascaded_conversations s cids)"
    by (cases "cascaded_conversations s cids") auto
  then have in_s: "c \<in> set (conversations s)" and fresh: "c_id c \<notin> set cids"
    by (auto simp: cascaded_conversations_def)
  let ?A = "c_id ` set (conversations s)"
  let ?new = "set (cids @ map c_id (cascaded_conversations s cids))"
  have sub: "?A - ?new \<subseteq> ?A - set cids"
    by auto
  have "c_id c \<in> ?A - set cids" "c_id c \<notin> ?A - ?new"
    using in_s fresh c by auto
  then have "?A - ?new \<subset> ?A - set cids"
    using sub by blast
  then have "card (?A - ?new) < card (?A - set cids)"
    by (intro psubset_card_mono) auto
  then show "((s, cids @ map c_id (cascaded_conversations s cids)), (s, cids))
               \<in> measure (\<lambda>(s, cids). card (c_id ` set (conversations s) - set cids))"
    by simp
qed

text \<open>
  The deletion: the first component is the first element of the tuple Django returns,
  the number of rows deleted over all the tables. \<open>Version.parent_version\<close>,
  \<open>Version.root_message\<close> and \<open>UploadedFile.conversation\<close> are \<open>SET_NULL\<close>.
\<close>

definition null_if_in :: "uuid list \<Rightarrow> uuid option \<Rightarrow> uuid option" where
  "null_if_in ids ref = (case ref of None \<Rightarrow> None | Some r \<Rightarrow> if r \<in> set ids then None else Some r)"

definition queryset_delete :: "conversation list \<Rightarrow> store \<Rightarrow> nat \<times> store" where
  "queryset_delete queryset s =
     (let cids = collect_conversations s (map c_id queryset);
          del_conversations = filter (\<lambda>c. c_id c \<in> set cids) (conversations s);
          del_versions = filter (\<lambda>v. v_conversation v \<in> set cids) (versions s);
          vids = map v_id del_versions;
          del_messages = filter (\<lambda>m. m_version m \<in> set vids) (messages s);
          mids = map m_id del_messages
      in (length del_conversations + length del_versions + length del_messages,
          s\<lparr>conversations := filter (\<lambda>c. c_id c \<notin> set cids) (conversations s),
            versions :=
              map (\<lambda>v. v\<lparr>parent_version := null_if_in vids (parent_version v),
                          root_message := null_if_in mids (root_message v)\<rparr>)
                (filter (\<lambda>v. v_conversation v \<notin> set cids) (versions s)),
            messages := filter (\<lambda>m. m_version m \<notin> set vids) (messages s),
            uploaded_files :=
              map (\<lambda>f. f\<lparr>f_conversation := null_if_in cids (f_conversation f)\<rparr>)
                (uploaded_files s)\<rparr>))"

text \<open>
  The task \<open>cleanup_old_conversations\<close> (tasks.py, lines 10 to 19): the number it
  logs as "Deleted n conversations" and returns under the key \<open>deleted\<close>.
\<close>

definition cleanup_old_conversations :: "timestamp \<Rightarrow> int \<Rightarrow> store \<Rightarrow> nat \<times> store" where
  "cleanup_old_conversations now days s =
     (let cutoff_date = now - timedelta_days days
      in queryset_delete (filter (\<lambda>c. c_created_at c < cutoff_date) (conversations s)) s)"

text \<open>\<open>str.lower()\<close> on the code points below 256.\<close>

definition lower_char :: "char \<Rightarrow> char" where
  "lower_char ch =
     (let n = (of_char ch :: nat)
      in if (65 \<le> n \<and> n \<le> 90) \<or> (192 \<le> n \<and> n \<le> 222 \<and> n \<noteq> 215) then char_of (n + 32) else ch)"

definition lower :: "string \<Rightarrow> string" where
  "lower t = map lower_char t"

text \<open>
  The command \<open>handle\<close> (cleanup_conversations.py, lines 31 to 68). \<open>username\<close> is the
  \<open>username\<close> column of the user table, which is not part of these files; \<open>confirm\<close>
  is what the operator types. The result is the number the command prints as deleted,
  if it deletes. With \<open>--dry-run\<close> the preview reads \<open>conv.messages\<close> of the first
  conversation it lists.
\<close>

definition handle ::
  "(nat \<Rightarrow> string) \<Rightarrow> timestamp \<Rightarrow> int \<Rightarrow> bool \<Rightarrow> string option \<Rightarrow> string \<Rightarrow> store
     \<Rightarrow> (error + nat option) \<times> store" where
  "handle username now days dry_run user_filter confirm s =
     (let cutoff_date = now - timedelta_days days;
          by_age = filter (\<lambda>c. c_created_at c < cutoff_date) (conversations s);
          queryset = (case user_filter of
                        None \<Rightarrow> by_age
                      | Some u \<Rightarrow> if u = [] then by_age
                                  else filter (\<lambda>c. username (c_user c) = u) by_age)
      in case queryset of
           [] \<Rightarrow> (Inr None, s)
         | conv # others \<Rightarrow>
             if dry_run then
               (case Conversation_messages s conv of
                  Inl e \<Rightarrow> (Inl e, s)
                | Inr msgs \<Rightarrow> (Inr None, s))
             else if lower confirm = ''yes''
               then (case queryset_delete queryset s of
                       (deleted_count, s') \<Rightarrow> (Inr (Some deleted_count), s'))
               else (Inr None, s))"

section \<open>File uploads (chat/models.py, chat/serializers.py)\<close>

text \<open>
  \<open>hashlib.sha256\<close> is a parameter, a function from the bytes to the 256-bit digest;
  \<open>hexdigest\<close> writes the digest as 64 hexadecimal digits.
\<close>

definition hex_digit :: "nat \<Rightarrow> char" where
  "hex_digit n = ''0123456789abcdef'' ! (n mod 16)"

definition hexdigest :: "256 word \<Rightarrow> string" where
  "hexdigest w = map (\<lambda>i. hex_digit (unat (drop_bit (4 * (63 - i)) w) mod 16)) [0..<64]"

definition calculate_file_hash :: "(8 word list \<Rightarrow> 256 word) \<Rightarrow> file_obj \<Rightarrow> string" where
  "calculate_file_hash sha256 file_arg = hexdigest (sha256 (concat (file_chunks file_arg)))"

definition duplicate_message :: string where
  "duplicate_message = ''A file with the same content has already been uploaded.''"

definition validate_file :: "(8 word list \<Rightarrow> 256 word) \<Rightarrow> file_obj \<Rightarrow> store \<Rightarrow> error + file_obj" where
  "validate_file sha256 val s =
     (if row_exists (\<lambda>f. file_hash f = calculate_file_hash sha256 val) (uploaded_files s)
      then Inl (ValidationError duplicate_message)
      else Inr val)"

text \<open>
  \<open>UploadedFile.save\<close> (lines 157 to 160): the hash is computed when the row has a
  file (\<open>FieldFile\<close> is true when it has a name) and no hash yet. The write is
  refused when another row has the same hash (\<open>unique=True\<close>), under \<open>force_insert\<close>
  when the primary key is taken, and when the conversation it names does not exist.
\<close>

definition UploadedFile_save ::
  "(8 word list \<Rightarrow> 256 word) \<Rightarrow> timestamp \<Rightarrow> bool \<Rightarrow> uploaded_file \<Rightarrow> store
     \<Rightarrow> (error + uploaded_file) \<times> store" where
  "UploadedFile_save sha256 now force_insert f s =
     (let f1 = (if file_name (f_file f) \<noteq> [] \<and> file_hash f = []
                then f\<lparr>file_hash := calculate_file_hash sha256 (f_file f)\<rparr> else f);
          present = row_exists (\<lambda>x. f_id x = f_id f1) (uploaded_files s)
      in if row_exists (\<lambda>x. file_hash x = file_hash f1 \<and> f_id x \<noteq> f_id f1) (uploaded_files s)
            \<or> (force_insert \<and> present)
            \<or> (case f_conversation f1 of
                  None \<Rightarrow> False
                | Some c \<Rightarrow> \<not> row_exists (\<lambda>x. c_id x = c) (conversations s))
         then (Inl IntegrityError, s)
         else (let f2 = (if present then f1 else f1\<lparr>uploaded_at := now\<rparr>)
               in (Inr f2, s\<lparr>uploaded_files := snd (save_row f_id f2 (uploaded_files s))\<rparr>)))"

text \<open>\<open>name.rsplit('.', 1)[1]\<close>: what follows the last dot.\<close>

definition after_last_dot :: "string \<Rightarrow> string" where
  "after_last_dot name = rev (takeWhile (\<lambda>ch. ch \<noteq> CHR ''.'') (rev name))"

definition UploadedFile_defaults :: "uuid \<Rightarrow> file_obj \<Rightarrow> uploaded_file" where
  "UploadedFile_defaults new_id file_arg =
     \<lparr> f_id = new_id, f_user = 0, f_conversation = None, f_file = file_arg, filename = [],
       file_size = 0, file_type = [], file_hash = [], status = ''pending'', uploaded_at = 0,
       processed_at = None, error_message = None, mime_type = None, page_count = None,
       is_indexed = False \<rparr>"

text \<open>
  \<open>UploadedFileSerializer.create\<close> (lines 231 to 247): the user of the request, the
  name, size and type of the file, then \<open>UploadedFile.objects.create\<close>. A row without
  a user violates NOT NULL. So does the row of a file that is false (it has no name):
  \<open>file_size\<close> is left unset, the field has no default, and the INSERT fails.
\<close>

definition UploadedFileSerializer_create ::
  "(8 word list \<Rightarrow> 256 word) \<Rightarrow> timestamp \<Rightarrow> uuid \<Rightarrow> nat option \<Rightarrow> uuid option \<Rightarrow> file_obj \<Rightarrow> store
     \<Rightarrow> (error + uploaded_file) \<times> store" where
  "UploadedFileSerializer_create sha256 now new_id request_user conv file_arg s =
     (case request_user of
        None \<Rightarrow> (Inl IntegrityError, s)
      | Some u \<Rightarrow>
          (let d = (UploadedFile_defaults new_id file_arg)\<lparr>f_user := u, f_conversation := conv\<rparr>
           in if file_name file_arg \<noteq> []
              then UploadedFile_save sha256 now True
                     (d\<lparr>filename := file_name file_arg,
                        file_size := length (concat (file_chunks file_arg)),
                        file_type := (if CHR ''.'' \<in> set (file_name file_arg)
                                      then after_last_dot (file_name file_arg) else [])\<rparr>) s
              else (Inl IntegrityError, s)))"

text \<open>
  An upload through the serializer: \<open>is_valid()\<close> runs \<open>validate_file\<close>, and
  \<open>save()\<close> runs \<open>create\<close> only when the validation passed.
\<close>

definition upload_file ::
  "(8 word list \<Rightarrow> 256 word) \<Rightarrow> timestamp \<Rightarrow> uuid \<Rightarrow> nat option \<Rightarrow> uuid option \<Rightarrow> file_obj \<Rightarrow> store
     \<Rightarrow> (error + uploaded_file) \<times> store" where
  "upload_file sha256 now new_id request_user conv file_arg s =
     (case validate_file sha256 file_arg s of
        Inl e \<Rightarrow> (Inl e, s)
      | Inr val \<Rightarrow> UploadedFileSerializer_create sha256 now new_id request_user conv val s)"

section \<open>Sequences of mutations\<close>




text \<open>
  The invariant of the data model: the active version of a conversation, if set, is a
  version row, and every row with that id belongs to the conversation.
\<close>

definition active_version_ok :: "store \<Rightarrow> conversation \<Rightarrow> bool" where
  "active_version_ok s c =
     (case active_version c of
        None \<Rightarrow> True
      | Some vid \<Rightarrow>
          (\<exists>v \<in> set (versions s). v_id v = vid) \<and>
          (\<forall>v \<in> set (versions s). v_id v = vid \<longrightarrow> v_conversation v = c_id c))"

definition active_version_invariant :: "store \<Rightarrow> bool" where
  "active_version_invariant s = (\<forall>c \<in> set (conversations s). active_version_ok s c)"

text \<open>
  The two columns the invariant reads: which version each conversation names as active,
  and which conversation each version belongs to. \<open>only_adds_versions s s'\<close>: from
  \<open>s\<close> to \<open>s'\<close> the first is unchanged and the second has only gained rows with
  new ids.
\<close>

definition active_refs :: "store \<Rightarrow> (uuid \<times> uuid option) list" where
  "active_refs s = map (\<lambda>c. (c_id c, active_version c)) (conversations s)"





section \<open>Example data\<close>

definition empty_store :: store where
  "empty_store = \<lparr> conversations = [], versions = [], messages = [], uploaded_files = [],
                    cache = [] \<rparr>"

definition example_conversation :: "uuid \<Rightarrow> timestamp \<Rightarrow> conversation" where
  "example_conversation cid created =
     (Conversation_defaults cid)\<lparr>title := ''chat'', c_created_at := created,
                                 modified_at := created, c_user := 7\<rparr>"

definition example_version :: "uuid \<Rightarrow> uuid \<Rightarrow> version" where
  "example_version vid cid =
     \<lparr> v_id = vid, v_conversation = cid, parent_version = None, root_message = None \<rparr>"

definition example_message :: "uuid \<Rightarrow> uuid \<Rightarrow> string \<Rightarrow> timestamp \<Rightarrow> message" where
  "example_message mid vid role_name created =
     \<lparr> m_id = mid, content = ''hello'', m_role = Some role_name, m_created_at = created,
       m_version = vid \<rparr>"

text \<open>One conversation with one version and no message.\<close>

definition store_one :: store where
  "store_one = empty_store\<lparr>conversations := [example_conversation 1 100],
                            versions := [example_version 10 1]\<rparr>"

text \<open>Two conversations, each with a version of its own; the first is on its version.\<close>

definition store_two :: store where
  "store_two =
     empty_store\<lparr>conversations := [(example_conversation 1 100)\<lparr>active_version := Some 10\<rparr>,
                                   example_conversation 2 100],
                 versions := [example_version 10 1, example_version 20 2]\<rparr>"

text \<open>One conversation whose version holds three messages.\<close>

definition store_three_messages :: store where
  "store_three_messages =
     store_one\<lparr>messages := [example_message 101 10 ''user'' 110,
                             example_message 102 10 ''assistant'' 120,
                             example_message 103 10 ''user'' 130]\<rparr>"

text \<open>
  Three conversations created 10, 31 and 60 days before \<open>now = 100 * 86400\<close>; the
  second has a version with two messages.
\<close>

definition store_ages :: store where
  "store_ages =
     empty_store\<lparr>conversations := [example_conversation 1 (90 * 86400),
                                   example_conversation 2 (69 * 86400),
                                   example_conversation 3 (40 * 86400)],
                 versions := [example_version 20 2],
                 messages := [example_message 201 20 ''user'' (69 * 86400),
                              example_message 202 20 ''assistant'' (69 * 86400)]\<rparr>"

text \<open>The data of a request that only switches the active version.\<close>

definition switch_to :: "version \<Rightarrow> conversation_data" where
  "switch_to v =
     \<lparr> cd_title = None, cd_active_version = Some (Some v), cd_user = None, cd_versions = [] \<rparr>"

text \<open>
  The data of a version that names an existing version and supplies neither
  \<open>parent_version\<close> nor \<open>root_message\<close>, and no messages.
\<close>

definition bare_version_data :: "uuid \<Rightarrow> version_data" where
  "bare_version_data vid =
     \<lparr> vd_id = Some vid, vd_conversation = None, vd_parent_version = None,
       vd_root_message = None, vd_messages = Some [], vd_uuid = 0 \<rparr>"





text \<open>
  Two files with the same bytes under different names and chunkings, and a stand-in for
  the digest function.
\<close>

definition file_a :: file_obj where
  "file_a = \<lparr> file_name = ''notes.txt'', file_chunks = [[1, 2], [3]] \<rparr>"

definition file_b :: file_obj where
  "file_b = \<lparr> file_name = ''copy.txt'', file_chunks = [[1], [2, 3]] \<rparr>"

definition example_digest :: "8 word list \<Rightarrow> 256 word" where
  "example_digest bytes = of_nat (sum_list (map unat bytes))"

definition failing_summarizer :: summarizer where
  "failing_summarizer req = Inl SummarizerError"

definition working_summarizer :: summarizer where
  "working_summarizer req = Inr ''They greet each other.''"

definition blank_summarizer :: summarizer where
  "blank_summarizer req = Inr ''  ''"

section \<open>Rows and lookups\<close>

lemma objects_get_Inr: "objects_get P rows = Inr x \<Longrightarrow> P x \<and> x \<in> set rows"
proof -
  assume a: "objects_get P rows = Inr x"
  then have "filter P rows = [x]"
    by (auto simp: objects_get_def split: list.splits)
  then have "x \<in> set (filter P rows)" by simp
  then show ?thesis by simp
qed

lemma save_row_set:
  "set (snd (save_row key r rows)) = insert r {x \<in> set rows. key x \<noteq> key r}"
proof (cases "row_exists (\<lambda>x. key x = key r) rows")
  case True
  then obtain y where "y \<in> set rows" "key y = key r"
    by (auto simp: row_exists_def filter_empty_conv)
  then show ?thesis
    using True by (auto simp: save_row_def)
next
  case False
  then show ?thesis
    by (auto simp: save_row_def row_exists_def filter_empty_conv)
qed

lemma Conversation_save_set:
  "\<exists>conv'. c_id conv' = c_id conv \<and> modified_at conv' = now \<and>
     active_version conv' = active_version conv \<and>
     set (conversations (snd (Conversation_save now conv s))) =
       insert conv' {x \<in> set (conversations s). c_id x \<noteq> c_id conv}"
proof (cases "row_exists (\<lambda>c. c_id c = c_id conv) (conversations s)")
  case True
  then have "snd (Conversation_save now conv s) =
      s\<lparr>conversations := snd (save_row c_id (conv\<lparr>modified_at := now\<rparr>) (conversations s))\<rparr>"
    by (simp add: Conversation_save_def handle_conversation_save_def save_row_def Let_def)
  then show ?thesis
    by (intro exI [of _ "conv\<lparr>modified_at := now\<rparr>"]) (simp add: save_row_set)
next
  case False
  let ?c = "conv\<lparr>c_created_at := now, modified_at := now\<rparr>"
  have "conversations (snd (Conversation_save now conv s)) =
      map (\<lambda>c. if c_id c = c_id conv then c\<lparr>is_summary_stale := True\<rparr> else c)
        (conversations s @ [?c])"
    using False by (simp add: Conversation_save_def handle_conversation_save_def save_row_def Let_def)
  moreover have "map (\<lambda>c. if c_id c = c_id conv then c\<lparr>is_summary_stale := True\<rparr> else c)
        (conversations s) = conversations s"
    using False by (auto simp: row_exists_def filter_empty_conv intro: map_idI)
  ultimately have "set (conversations (snd (Conversation_save now conv s))) =
      insert (?c\<lparr>is_summary_stale := True\<rparr>) (set (conversations s))"
    by simp
  moreover have "{x \<in> set (conversations s). c_id x \<noteq> c_id conv} = set (conversations s)"
    using False by (auto simp: row_exists_def filter_empty_conv)
  ultimately show ?thesis
    by (intro exI [of _ "?c\<lparr>is_summary_stale := True\<rparr>"]) simp
qed

lemma Conversation_save_modified_at:
  "c \<in> set (conversations (snd (Conversation_save now conv s))) \<Longrightarrow> c_id c = c_id conv \<Longrightarrow>
   modified_at c = now"
  using Conversation_save_set [of conv now s] by auto

lemma Conversation_save_row:
  "\<exists>c \<in> set (conversations (snd (Conversation_save now conv s))). c_id c = c_id conv"
  using Conversation_save_set [of conv now s] by auto

section \<open>Appending a message\<close>

lemma Message_write_conversations:
  "Message_write now force_insert msg s = Inr (created, msg', s') \<Longrightarrow> conversations s' = conversations s"
  by (auto simp: Message_write_def Let_def split: if_splits)

lemma regenerate_summary_store:
  "regenerate_summary_on_message_save summarize now msg created s = (r, s') \<Longrightarrow> s' = s"
  by (auto simp: regenerate_summary_on_message_save_def Message_conversation_def split: if_splits)

lemma Message_save_conversations:
  assumes "objects_get (\<lambda>v. v_id v = m_version msg) (versions s) = Inr v"
      and "objects_get (\<lambda>c. c_id c = v_conversation v) (conversations s) = Inr conv"
  shows "conversations (snd (Message_save summarize now force_insert msg s)) =
         conversations (snd (Conversation_save now conv s))"
  using assms
  by (auto simp: Message_save_def Let_def split: sum.splits prod.splits option.splits
      dest!: Message_write_conversations regenerate_summary_store)

text \<open>
  The receiver reads \<open>instance.conversation\<close> for every created message, so no call
  of \<open>Message.objects.create\<close> returns the message, whatever the summarizer does.
\<close>

lemma Message_objects_create_never_returns:
  "fst (Message_objects_create summarize now new_id vid content_arg role_arg s) \<noteq> Inr m"
  by (auto simp: Message_objects_create_def Message_save_def Message_write_def Let_def
        regenerate_summary_on_message_save_def Message_conversation_def
      split: sum.splits prod.splits option.splits if_splits)

text \<open>
  C1. The claim: every append succeeds, the message is persisted and returned, also when
  the summary generation fails. On the code the append of a message to the version of
  \<open>store_one\<close> raises \<open>AttributeError\<close> out of \<open>save\<close>: the conversation was
  touched and the row written, and then the \<open>post_save\<close> receiver read
  \<open>instance.conversation\<close>, which \<open>Message\<close> does not have. The summarizer is never
  reached.
\<close>

theorem message_append_raises:
  "Message_objects_create failing_summarizer 200 101 10 ''hello'' (Some ''user'') store_one =
     (Inl AttributeError,
      store_one\<lparr>conversations := [(example_conversation 1 100)\<lparr>modified_at := 200\<rparr>],
                messages := [(example_message 101 10 ''user'' 200)]\<rparr>)"
  by code_simp

text \<open>
  C10. Every save of a message whose version and conversation exist, an update as well as
  an append, leaves the owning conversation with \<open>modified_at = now\<close>, whatever the
  outcome \<open>r\<close> of the save; when the write of the message row fails, the save raises
  that error and the store it leaves is the one with the conversation saved.
\<close>

theorem message_save_touches_conversation:
  assumes "objects_get (\<lambda>v. v_id v = m_version msg) (versions s) = Inr v"
      and "objects_get (\<lambda>c. c_id c = v_conversation v) (conversations s) = Inr conv"
      and "Message_save summarize now force_insert msg s = (r, s')"
  shows "(\<exists>c \<in> set (conversations s'). c_id c = v_conversation v) \<and>
         (\<forall>c \<in> set (conversations s'). c_id c = v_conversation v \<longrightarrow> modified_at c = now) \<and>
         (\<forall>e. Message_write now force_insert msg (snd (Conversation_save now conv s)) = Inl e \<longrightarrow>
              r = Inl e \<and> s' = snd (Conversation_save now conv s))"
proof -
  have cid: "c_id conv = v_conversation v"
    using objects_get_Inr [OF assms(2)] by simp
  have eq: "conversations s' = conversations (snd (Conversation_save now conv s))"
    using Message_save_conversations [OF assms(1,2), of summarize now force_insert] assms(3) by simp
  have fail: "\<forall>e. Message_write now force_insert msg (snd (Conversation_save now conv s)) = Inl e \<longrightarrow>
              r = Inl e \<and> s' = snd (Conversation_save now conv s)"
    using assms by (auto simp: Message_save_def Let_def)
  show ?thesis
    using eq cid fail Conversation_save_row [of now conv s] Conversation_save_modified_at [of _ now conv s]
    by auto
qed

theorem message_save_touches_conversation_witness:
  "objects_get (\<lambda>v. v_id v = m_version ((example_message 101 10 ''user'' 0)\<lparr>m_role := None\<rparr>))
     (versions store_one) = Inr (example_version 10 1) \<and>
   objects_get (\<lambda>c. c_id c = v_conversation (example_version 10 1)) (conversations store_one) =
     Inr (example_conversation 1 100) \<and>
   Message_save failing_summarizer 200 True ((example_message 101 10 ''user'' 0)\<lparr>m_role := None\<rparr>)
     store_one =
     (Inl IntegrityError,
      store_one\<lparr>conversations := [(example_conversation 1 100)\<lparr>modified_at := 200\<rparr>]\<rparr>) \<and>
   (\<exists>c \<in> set (conversations
        (store_one\<lparr>conversations := [(example_conversation 1 100)\<lparr>modified_at := 200\<rparr>]\<rparr>)).
      c_id c = 1 \<and> modified_at c = 200)"
proof -
  let ?msg = "(example_message 101 10 ''user'' 0)\<lparr>m_role := None\<rparr>"
  let ?s' = "store_one\<lparr>conversations := [(example_conversation 1 100)\<lparr>modified_at := 200\<rparr>]\<rparr>"
  have h1: "objects_get (\<lambda>v. v_id v = m_version ?msg) (versions store_one) = Inr (example_version 10 1)"
    by code_simp
  have h2: "objects_get (\<lambda>c. c_id c = v_conversation (example_version 10 1)) (conversations store_one) =
     Inr (example_conversation 1 100)"
    by code_simp
  have h3: "Message_save failing_summarizer 200 True ?msg store_one = (Inl IntegrityError, ?s')"
    by code_simp
  have v: "v_conversation (example_version 10 1) = 1"
    by (simp add: example_version_def)
  show ?thesis
    using message_save_touches_conversation [OF h1 h2 h3] h1 h2 h3 v by auto
qed

section \<open>Generating and storing a summary\<close>

lemma dropWhile_all_iff: "(\<forall>x \<in> set (dropWhile P xs). P x) \<longleftrightarrow> (\<forall>x \<in> set xs. P x)"
  by (induction xs) auto

lemma strip_empty_iff: "strip t = [] \<longleftrightarrow> (\<forall>ch \<in> set t. isspace ch)"
  by (simp add: strip_def dropWhile_eq_Nil_conv dropWhile_all_iff)

text \<open>
  What the body of \<open>generate_summary\<close> does with a list of messages: nothing below
  three messages, nothing when the summarizer fails, the stripped text otherwise.
\<close>

lemma generate_summary_from_few:
  "length msgs < 3 \<Longrightarrow> generate_summary_from summarize msgs = None"
  by (simp add: generate_summary_from_def MIN_MESSAGES_FOR_SUMMARY_def)

lemma generate_summary_from_error:
  "summarize (summary_request (build_context msgs)) = Inl e \<Longrightarrow>
   generate_summary_from summarize msgs = None"
  by (simp add: generate_summary_from_def)

lemma generate_summary_from_text:
  "3 \<le> length msgs \<Longrightarrow> summarize (summary_request (build_context msgs)) = Inr body \<Longrightarrow>
   generate_summary_from summarize msgs = Some (strip body)"
  by (simp add: generate_summary_from_def MIN_MESSAGES_FOR_SUMMARY_def)

text \<open>
  With a text that is not all white space the result is not empty. The transcript is
  made of at most ten messages, the earliest by \<open>created_at\<close>, in that order, each
  on a line with the label of its role and the first 200 characters of its content.
\<close>

lemma generate_summary_from_nonempty:
  assumes "3 \<le> length msgs" and "summarize (summary_request (build_context msgs)) = Inr body"
      and "\<exists>ch \<in> set body. \<not> isspace ch"
  shows "\<exists>t. generate_summary_from summarize msgs = Some t \<and> t \<noteq> []"
  using assms strip_empty_iff [of body]
  by (auto simp: generate_summary_from_def MIN_MESSAGES_FOR_SUMMARY_def)

lemma transcript_messages:
  "length (take 10 (sort_key m_created_at msgs)) \<le> 10 \<and>
   set (take 10 (sort_key m_created_at msgs)) \<subseteq> set msgs \<and>
   sorted (map m_created_at (take 10 (sort_key m_created_at msgs))) \<and>
   (\<forall>m \<in> set (drop 10 (sort_key m_created_at msgs)).
      \<forall>k \<in> set (take 10 (sort_key m_created_at msgs)). m_created_at k \<le> m_created_at m)"
proof -
  let ?xs = "sort_key m_created_at msgs"
  have s: "sorted (map m_created_at ?xs)" by simp
  have "sorted (map m_created_at (take 10 ?xs @ drop 10 ?xs))" using s by simp
  then have "sorted (map m_created_at (take 10 ?xs) @ map m_created_at (drop 10 ?xs))"
    by (simp only: map_append)
  then have parts: "sorted (map m_created_at (take 10 ?xs)) \<and>
      (\<forall>a \<in> set (map m_created_at (take 10 ?xs)). \<forall>b \<in> set (map m_created_at (drop 10 ?xs)). a \<le> b)"
    by (simp only: sorted_append) simp
  have sub: "set (take 10 ?xs) \<subseteq> set msgs"
    using set_take_subset [of 10 ?xs] by simp
  show ?thesis
    using parts sub by auto
qed

lemma transcript_line_shape:
  "transcript_line msg = (if m_role msg = Some ''user'' then ''User: '' else ''Assistant: '')
                           @ take 200 (content msg) \<and>
   length (take 200 (content msg)) \<le> 200"
  by (simp add: transcript_line_def)

lemma generate_summary_from_example: "generate_summary_from working_summarizer (messages store_three_messages) =
   Some ''They greet each other.''"
  by code_simp

lemma build_context_example: "build_context (messages store_three_messages) =
   ''User: hello'' @ [CHR 0x0A] @ ''Assistant: hello'' @ [CHR 0x0A] @ ''User: hello''"
  by code_simp

text \<open>
  The body is never reached with a list: \<open>conversation.messages\<close> raises, and the
  \<open>except Exception\<close> clause turns that into \<open>None\<close>.
\<close>

lemma generate_summary_always_absent: "generate_summary summarize s conv = None"
  by (simp add: generate_summary_def Conversation_messages_def)

text \<open>
  C4. The claim: with at least three messages and a summarizer that returns text,
  \<open>generate_summary\<close> returns non-empty text. On the code the conversation of
  \<open>store_three_messages\<close> has three messages and the summarizer answers with a
  sentence, and \<open>generate_summary\<close> returns \<open>None\<close>.
\<close>

theorem generate_summary_three_messages_absent:
  "length (messages_of_conversation store_three_messages 1) = 3 \<and>
   generate_summary working_summarizer store_three_messages (example_conversation 1 100) = None"
  by code_simp

lemma store_summary_unusable:
  "generated = None \<or> generated = Some [] \<Longrightarrow> store_summary now generated conv s = (False, conv, s)"
  by (auto simp: store_summary_def)

lemma store_summary_False_store:
  "store_summary now generated conv s = (False, conv', s') \<Longrightarrow> s' = s"
  by (auto simp: store_summary_def Let_def split: option.splits if_splits sum.splits)

lemma store_summary_success:
  assumes "body \<noteq> []" and "row_exists (\<lambda>c. c_id c = c_id conv) (conversations s)"
  shows "\<exists>conv' s'. store_summary now (Some body) conv s = (True, conv', s') \<and>
           summary conv' = Some body \<and> \<not> is_summary_stale conv' \<and>
           summary_generated_at conv' = Some now \<and>
           (\<forall>c \<in> set (conversations s'). c_id c = c_id conv \<longrightarrow>
              summary c = Some body \<and> \<not> is_summary_stale c) \<and>
           map_of (cache s') (c_id conv) = Some (body, SUMMARY_CACHE_TIMEOUT)"
  using assms
  by (auto simp: store_summary_def save_summary_fields_def cache_set_def Let_def)

text \<open>
  C8. When \<open>generate_summary\<close> gives no usable summary (\<open>None\<close> after an error of the
  summarizer, or an empty text), \<open>update_conversation_summary\<close> returns \<open>False\<close> and
  leaves the conversation object and the store as they were, so the stored summary text
  and \<open>is_summary_stale\<close> are unchanged.
\<close>

theorem update_conversation_summary_failure:
  assumes "generate_summary summarize s conv = None \<or> generate_summary summarize s conv = Some []"
  shows "update_conversation_summary summarize now conv s = (False, conv, s)"
  using assms by (simp add: update_conversation_summary_def store_summary_unusable)

theorem update_conversation_summary_failure_witness:
  "generate_summary failing_summarizer store_three_messages
     ((example_conversation 1 100)\<lparr>summary := Some ''old'', is_summary_stale := False\<rparr>) = None \<and>
   update_conversation_summary failing_summarizer 500
     ((example_conversation 1 100)\<lparr>summary := Some ''old'', is_summary_stale := False\<rparr>)
     store_three_messages =
     (False, (example_conversation 1 100)\<lparr>summary := Some ''old'', is_summary_stale := False\<rparr>,
      store_three_messages)"
proof -
  let ?c = "(example_conversation 1 100)\<lparr>summary := Some ''old'', is_summary_stale := False\<rparr>"
  have h: "generate_summary failing_summarizer store_three_messages ?c = None"
    by (simp add: generate_summary_def Conversation_messages_def)
  show ?thesis
    using h update_conversation_summary_failure [of failing_summarizer store_three_messages ?c 500]
    by simp
qed

section \<open>What the message and version loops leave alone\<close>

lemma objects_get_unique:
  "objects_get P rows = Inr x \<Longrightarrow> y \<in> set rows \<Longrightarrow> P y \<Longrightarrow> y = x"
proof -
  assume a: "objects_get P rows = Inr x" and y: "y \<in> set rows" "P y"
  from a have "filter P rows = [x]"
    by (auto simp: objects_get_def split: list.splits)
  moreover have "y \<in> set (filter P rows)" using y by simp
  ultimately show ?thesis by simp
qed

lemma objects_get_exists: "objects_get P rows = Inr x \<Longrightarrow> row_exists P rows"
  by (auto simp: objects_get_def row_exists_def split: list.splits)

lemma Conversation_save_loaded:
  assumes "objects_get (\<lambda>c. c_id c = k) (conversations s) = Inr conv"
  shows "active_refs (snd (Conversation_save now conv s)) = active_refs s \<and>
         versions (snd (Conversation_save now conv s)) = versions s \<and>
         messages (snd (Conversation_save now conv s)) = messages s"
proof -
  have k: "c_id conv = k" using objects_get_Inr [OF assms] by simp
  have ex: "row_exists (\<lambda>c. c_id c = c_id conv) (conversations s)"
    using objects_get_exists [OF assms] k by simp
  have same: "\<And>x. x \<in> set (conversations s) \<Longrightarrow> c_id x = c_id conv \<Longrightarrow> x = conv"
    using objects_get_unique [OF assms] k by simp
  have "snd (Conversation_save now conv s) =
      s\<lparr>conversations := map (\<lambda>x. if c_id x = c_id conv then conv\<lparr>modified_at := now\<rparr> else x)
         (conversations s)\<rparr>"
    using ex by (simp add: Conversation_save_def handle_conversation_save_def save_row_def Let_def)
  then show ?thesis
    using same by (auto simp: active_refs_def)
qed


lemma Message_write_tables:
  "Message_write now force_insert msg s = Inr (created, msg', s') \<Longrightarrow>
   conversations s' = conversations s \<and> versions s' = versions s"
  by (auto simp: Message_write_def Let_def split: if_splits)

lemma Message_save_frame:
  "active_refs (snd (Message_save summarize now force_insert msg s)) = active_refs s \<and>
   versions (snd (Message_save summarize now force_insert msg s)) = versions s"
proof (cases "objects_get (\<lambda>v. v_id v = m_version msg) (versions s)")
  case (Inl e)
  then show ?thesis by (simp add: Message_save_def)
next
  case v: (Inr v)
  show ?thesis
  proof (cases "objects_get (\<lambda>c. c_id c = v_conversation v) (conversations s)")
    case (Inl e)
    then show ?thesis using v by (simp add: Message_save_def)
  next
    case c: (Inr conv)
    let ?s1 = "snd (Conversation_save now conv s)"
    have s1: "active_refs ?s1 = active_refs s \<and> versions ?s1 = versions s"
      using Conversation_save_loaded [OF c] by simp
    show ?thesis
    proof (cases "Message_write now force_insert msg ?s1")
      case (Inl e)
      then show ?thesis using v c s1 by (simp add: Message_save_def Let_def)
    next
      case (Inr w)
      obtain created msg' s2 where w: "w = (created, msg', s2)" by (cases w) auto
      have s2: "conversations s2 = conversations ?s1 \<and> versions s2 = versions ?s1"
        using Message_write_tables Inr w by blast
      obtain r s3 where h: "regenerate_summary_on_message_save summarize now msg' created s2 = (r, s3)"
        by (cases "regenerate_summary_on_message_save summarize now msg' created s2") auto
      have s3: "s3 = s2" using regenerate_summary_store [OF h] .
      have "snd (Message_save summarize now force_insert msg s) = s2"
        using v c Inr w h s3 by (cases r) (simp_all add: Message_save_def Let_def)
      then show ?thesis using s1 s2 by (simp add: active_refs_def)
    qed
  qed
qed

lemma message_data_create_frame:
  "active_refs (snd (message_data_create summarize now vid md s)) = active_refs s \<and>
   versions (snd (message_data_create summarize now vid md s)) = versions s"
  by (simp add: message_data_create_def Message_objects_create_def Message_save_frame)

lemma message_data_update_frame:
  "active_refs (snd (message_data_update summarize now instance md s)) = active_refs s \<and>
   versions (snd (message_data_update summarize now instance md s)) = versions s"
  by (auto simp: message_data_update_def Message_save_frame message_data_create_frame
      split: option.splits sum.splits)

lemma create_messages_frame:
  "active_refs (snd (create_messages summarize now vid mds s)) = active_refs s \<and>
   versions (snd (create_messages summarize now vid mds s)) = versions s"
proof (induction mds arbitrary: s)
  case Nil
  then show ?case by simp
next
  case (Cons md rest)
  obtain r s' where h: "message_data_create summarize now vid md s = (r, s')"
    by (cases "message_data_create summarize now vid md s") auto
  have f: "active_refs s' = active_refs s \<and> versions s' = versions s"
    using message_data_create_frame [of summarize now vid md s] h by simp
  show ?case
    using h f Cons.IH [of s'] by (cases r) simp_all
qed

lemma update_messages_frame:
  "active_refs (snd (update_messages summarize now instance mds s)) = active_refs s \<and>
   versions (snd (update_messages summarize now instance mds s)) = versions s"
proof (induction mds arbitrary: s)
  case Nil
  then show ?case by simp
next
  case (Cons md rest)
  obtain r s' where h: "message_data_update summarize now instance md s = (r, s')"
    by (cases "message_data_update summarize now instance md s") auto
  have f: "active_refs s' = active_refs s \<and> versions s' = versions s"
    using message_data_update_frame [of summarize now "instance" md s] h by simp
  show ?case
    using h f Cons.IH [of s'] by (cases r) simp_all
qed

lemma Version_save_frame:
  "Version_save vid conv_arg parent_arg root_arg s = Inr (v, s') \<Longrightarrow>
   conversations s' = conversations s \<and> messages s' = messages s"
  by (auto simp: Version_save_def Let_def split: option.splits if_splits)

lemma VersionSerializer_create_refs:
  "active_refs (snd (VersionSerializer_create summarize now vd s)) = active_refs s"
proof (cases "vd_messages vd")
  case None
  then show ?thesis by (simp add: VersionSerializer_create_def)
next
  case (Some mds)
  show ?thesis
  proof (cases "Version_objects_create (dict_get (vd_id vd) (vd_uuid vd))
                  (dict_get (vd_conversation vd) None) (dict_get (vd_parent_version vd) None)
                  (dict_get (vd_root_message vd) None) s")
    case (Inl e)
    then show ?thesis using Some by (simp add: VersionSerializer_create_def)
  next
    case (Inr w)
    obtain version s1 where w: "w = (version, s1)" by (cases w) auto
    have s1: "active_refs s1 = active_refs s"
      using Inr w Version_save_frame
      by (auto simp: Version_objects_create_def active_refs_def split: if_splits)
    obtain r s2 where h: "create_messages summarize now (v_id version) mds s1 = (r, s2)"
      by (cases "create_messages summarize now (v_id version) mds s1") auto
    have s2: "active_refs s2 = active_refs s1"
      using create_messages_frame [of summarize now "v_id version" mds s1] h by simp
    have "snd (VersionSerializer_create summarize now vd s) = s2"
      using Some Inr w h by (cases r) (simp_all add: VersionSerializer_create_def)
    then show ?thesis using s1 s2 by simp
  qed
qed

lemma VersionSerializer_update_refs:
  "active_refs (snd (VersionSerializer_update summarize now inst vd s)) = active_refs s"
proof -
  let ?conv = "dict_get (vd_conversation vd) (Some (v_conversation inst))"
  let ?parent = "dict_get (vd_parent_version vd) (parent_version inst)"
  let ?root = "dict_get (vd_root_message vd) (root_message inst)"
  show ?thesis
  proof (cases "should_serialize (vd_conversation vd) \<or> should_serialize (vd_parent_version vd)
                \<or> should_serialize (vd_root_message vd)")
    case False
    then show ?thesis by (simp add: VersionSerializer_update_def)
  next
    case True
    show ?thesis
    proof (cases "Version_save (v_id inst) ?conv ?parent ?root s")
      case (Inl e)
      then show ?thesis using True by (auto simp: VersionSerializer_update_def Let_def)
    next
      case (Inr w)
      obtain inst' s1 where w: "w = (inst', s1)" by (cases w) auto
      have s1: "active_refs s1 = active_refs s"
        using Inr w Version_save_frame by (auto simp: active_refs_def)
      obtain r s2 where h: "update_messages summarize now inst' (dict_get (vd_messages vd) []) s1 = (r, s2)"
        by (cases "update_messages summarize now inst' (dict_get (vd_messages vd) []) s1") auto
      have s2: "active_refs s2 = active_refs s1"
        using update_messages_frame [of summarize now inst' "dict_get (vd_messages vd) []" s1] h by simp
      have "snd (VersionSerializer_update summarize now inst vd s) = s2"
        using True Inr w h by (cases r) (auto simp: VersionSerializer_update_def Let_def)
      then show ?thesis using s1 s2 by simp
    qed
  qed
qed

lemma VersionSerializer_save_refs:
  "active_refs (snd (VersionSerializer_save summarize now inst_opt vd conv s)) = active_refs s"
  by (cases inst_opt)
     (simp_all add: VersionSerializer_save_def VersionSerializer_create_refs VersionSerializer_update_refs)

lemma create_versions_refs:
  "active_refs (snd (create_versions is_valid summarize now conv vds s)) = active_refs s"
proof (induction vds arbitrary: s)
  case Nil
  then show ?case by simp
next
  case (Cons vd rest)
  obtain r s' where h: "VersionSerializer_save summarize now None vd conv s = (r, s')"
    by (cases "VersionSerializer_save summarize now None vd conv s") auto
  have f: "active_refs s' = active_refs s"
    using VersionSerializer_save_refs [of summarize now None vd conv s] h by simp
  show ?case
    using h f Cons.IH [of s'] Cons.IH [of s] by (cases r) simp_all
qed

lemma upsert_version_refs:
  "active_refs (snd (upsert_version is_valid summarize now conv vd s)) = active_refs s"
proof -
  have a: "\<And>inst_opt. active_refs (snd (case VersionSerializer_save summarize now inst_opt vd conv s of
                 (Inl e, s') \<Rightarrow> (Some e, s') | (Inr v, s') \<Rightarrow> (None, s'))) = active_refs s"
  proof -
    fix inst_opt
    obtain r s' where h: "VersionSerializer_save summarize now inst_opt vd conv s = (r, s')"
      by (cases "VersionSerializer_save summarize now inst_opt vd conv s") auto
    have "active_refs s' = active_refs s"
      using VersionSerializer_save_refs [of summarize now inst_opt vd conv s] h by simp
    then show "active_refs (snd (case VersionSerializer_save summarize now inst_opt vd conv s of
                 (Inl e, s') \<Rightarrow> (Some e, s') | (Inr v, s') \<Rightarrow> (None, s'))) = active_refs s"
      using h by (cases r) simp_all
  qed
  show ?thesis
    by (auto simp: upsert_version_def a split: option.splits sum.splits)
qed

lemma upsert_versions_refs:
  "active_refs (snd (upsert_versions is_valid summarize now conv vds s)) = active_refs s"
proof (induction vds arbitrary: s)
  case Nil
  then show ?case by simp
next
  case (Cons vd rest)
  obtain r s' where h: "upsert_version is_valid summarize now conv vd s = (r, s')"
    by (cases "upsert_version is_valid summarize now conv vd s") auto
  have f: "active_refs s' = active_refs s"
    using upsert_version_refs [of is_valid summarize now conv vd s] h by simp
  show ?case
    using h f Cons.IH [of s'] by (cases r) simp_all
qed

section \<open>Setting the active version\<close>



text \<open>
  The refusal is not a check of the owner: the version a conversation is on is refused
  like any other, and so is an update that supplies no active version to a conversation
  that has one.
\<close>

lemma set_active_version_own_refused:
  "ConversationSerializer_update (\<lambda>vd. True) failing_summarizer 200
     ((example_conversation 1 100)\<lparr>active_version := Some 10\<rparr>) (switch_to (example_version 10 1))
     store_two =
   (Inl (ValidationError not_a_valid_uuid), store_two)"
  by code_simp

lemma update_with_active_version_refused:
  "ConversationSerializer_update (\<lambda>vd. True) failing_summarizer 200
     ((example_conversation 1 100)\<lparr>active_version := Some 10\<rparr>)
     \<lparr> cd_title = Some ''renamed'', cd_active_version = None, cd_user = None, cd_versions = [] \<rparr>
     store_two =
   (Inl (ValidationError not_a_valid_uuid), store_two)"
  by code_simp



section \<open>Updating a version\<close>

lemma objects_get_not_validation: "objects_get P rows \<noteq> Inl (ValidationError m)"
  by (auto simp: objects_get_def split: list.splits)

lemma Message_save_not_validation:
  "fst (Message_save summarize now force_insert msg s) \<noteq> Inl (ValidationError m)"
proof -
  have "fst (Message_save summarize now force_insert msg s) = Inl e \<Longrightarrow>
        e \<in> {DoesNotExist, MultipleObjectsReturned, IntegrityError, AttributeError}" for e
    by (auto simp: Message_save_def Message_write_def Let_def objects_get_def
          regenerate_summary_on_message_save_def Message_conversation_def
        split: sum.splits prod.splits option.splits if_splits list.splits)
  then show ?thesis by fastforce
qed

lemma message_data_update_not_validation:
  "fst (message_data_update summarize now inst md s) \<noteq> Inl (ValidationError m)"
  using objects_get_not_validation
  by (auto simp: message_data_update_def message_data_create_def Message_objects_create_def
        Message_save_not_validation split: option.splits sum.splits)

lemma update_messages_not_validation:
  "fst (update_messages summarize now inst mds s) \<noteq> Some (ValidationError m)"
proof (induction mds arbitrary: s)
  case Nil
  then show ?case by simp
next
  case (Cons md rest)
  obtain r s' where h: "message_data_update summarize now inst md s = (r, s')"
    by (cases "message_data_update summarize now inst md s") auto
  have "r \<noteq> Inl (ValidationError m)"
    using message_data_update_not_validation [of summarize now inst md s m] h by simp
  then show ?case
    using h Cons.IH [of s'] by (cases r) auto
qed

lemma Version_save_not_validation:
  "Version_save vid conv_arg parent_arg root_arg s \<noteq> Inl (ValidationError m)"
  by (auto simp: Version_save_def Let_def split: option.splits)

text \<open>
  C7. The claim: an update of an existing version through the upsert fails with
  \<open>ValidationError\<close> when the data supply neither \<open>parent_version\<close> nor
  \<open>root_message\<close>. On the code the upsert of version 10 of \<open>store_one\<close> with such
  data is accepted: \<open>save(conversation=instance)\<close> adds the conversation to the data,
  and the check of \<open>VersionSerializer.update\<close> counts it.
\<close>

theorem version_upsert_without_parent_or_root_accepted:
  "ConversationSerializer_update (\<lambda>vd. True) failing_summarizer 200 (example_conversation 1 100)
     \<lparr> cd_title = None, cd_active_version = None, cd_user = None,
       cd_versions = [bare_version_data 10] \<rparr> store_one =
     (Inr ((example_conversation 1 100)\<lparr>modified_at := 200\<rparr>),
      store_one\<lparr>conversations := [(example_conversation 1 100)\<lparr>modified_at := 200\<rparr>]\<rparr>) \<and>
   vd_parent_version (bare_version_data 10) = None \<and> vd_root_message (bare_version_data 10) = None"
  by code_simp

text \<open>
  C7, as the code has it. \<open>VersionSerializer.update\<close> raises the \<open>ValidationError\<close>,
  with the store unchanged, when the data supply none of \<open>conversation\<close>,
  \<open>parent_version\<close> and \<open>root_message\<close>; when they supply one of the three it never
  raises a \<open>ValidationError\<close>; and the update that \<open>save(conversation=...)\<close> runs,
  the one of the upsert, never does.
\<close>

theorem version_update_requires_one_of_three:
  "(\<not> should_serialize (vd_conversation vd) \<and> \<not> should_serialize (vd_parent_version vd) \<and>
    \<not> should_serialize (vd_root_message vd) \<longrightarrow>
      VersionSerializer_update summarize now inst vd s =
        (Inl (ValidationError version_fields_message), s)) \<and>
   (should_serialize (vd_conversation vd) \<or> should_serialize (vd_parent_version vd) \<or>
    should_serialize (vd_root_message vd) \<longrightarrow>
      fst (VersionSerializer_update summarize now inst vd s) \<noteq> Inl (ValidationError m)) \<and>
   fst (VersionSerializer_save summarize now (Some inst) vd conv s) \<noteq> Inl (ValidationError m)"
proof -
  have some: "fst (VersionSerializer_update summarize now inst vd' s) \<noteq> Inl (ValidationError m)"
    if sup: "should_serialize (vd_conversation vd') \<or> should_serialize (vd_parent_version vd') \<or>
             should_serialize (vd_root_message vd')" for vd'
  proof -
    let ?save = "Version_save (v_id inst) (dict_get (vd_conversation vd') (Some (v_conversation inst)))
                   (dict_get (vd_parent_version vd') (parent_version inst))
                   (dict_get (vd_root_message vd') (root_message inst)) s"
    show ?thesis
    proof (cases ?save)
      case (Inl e)
      then have "e \<noteq> ValidationError m"
        using Version_save_not_validation by metis
      then show ?thesis
        using sup Inl by (auto simp: VersionSerializer_update_def Let_def)
    next
      case (Inr w)
      obtain inst' s1 where w: "w = (inst', s1)" by (cases w) auto
      obtain r s2 where h: "update_messages summarize now inst' (dict_get (vd_messages vd') []) s1 = (r, s2)"
        by (cases "update_messages summarize now inst' (dict_get (vd_messages vd') []) s1") auto
      have "r \<noteq> Some (ValidationError m)"
        using update_messages_not_validation [of summarize now inst' "dict_get (vd_messages vd') []" s1 m] h
        by simp
      then show ?thesis
        using sup Inr w h by (cases r) (auto simp: VersionSerializer_update_def Let_def)
    qed
  qed
  have none: "\<not> should_serialize (vd_conversation vd) \<and> \<not> should_serialize (vd_parent_version vd) \<and>
    \<not> should_serialize (vd_root_message vd) \<longrightarrow>
      VersionSerializer_update summarize now inst vd s =
        (Inl (ValidationError version_fields_message), s)"
    by (simp add: VersionSerializer_update_def Let_def)
  have upsert: "fst (VersionSerializer_save summarize now (Some inst) vd conv s) \<noteq> Inl (ValidationError m)"
    using some [of "vd\<lparr>vd_conversation := Some (Some conv)\<rparr>"]
    by (simp add: VersionSerializer_save_def should_serialize_def)
  show ?thesis
    using none some [of vd] upsert by blast
qed

theorem version_update_requires_one_of_three_witness:
  "\<not> should_serialize (vd_conversation (bare_version_data 10)) \<and>
   \<not> should_serialize (vd_parent_version (bare_version_data 10)) \<and>
   \<not> should_serialize (vd_root_message (bare_version_data 10)) \<and>
   VersionSerializer_update failing_summarizer 200 (example_version 10 1) (bare_version_data 10) store_one =
     (Inl (ValidationError version_fields_message), store_one) \<and>
   should_serialize (vd_conversation ((bare_version_data 10)\<lparr>vd_conversation := Some (Some 1)\<rparr>)) \<and>
   fst (VersionSerializer_update failing_summarizer 200 (example_version 10 1)
         ((bare_version_data 10)\<lparr>vd_conversation := Some (Some 1)\<rparr>) store_one)
     \<noteq> Inl (ValidationError version_fields_message)"
proof -
  have h: "\<not> should_serialize (vd_conversation (bare_version_data 10)) \<and>
   \<not> should_serialize (vd_parent_version (bare_version_data 10)) \<and>
   \<not> should_serialize (vd_root_message (bare_version_data 10))"
    by (simp add: bare_version_data_def should_serialize_def)
  have g: "should_serialize (vd_conversation ((bare_version_data 10)\<lparr>vd_conversation := Some (Some 1)\<rparr>))"
    by (simp add: should_serialize_def)
  show ?thesis
    using h g
      version_update_requires_one_of_three [of "bare_version_data 10" failing_summarizer 200
        "example_version 10 1" store_one version_fields_message 1]
      version_update_requires_one_of_three [of "(bare_version_data 10)\<lparr>vd_conversation := Some (Some 1)\<rparr>"
        failing_summarizer 200 "example_version 10 1" store_one version_fields_message 1]
    by blast
qed

section \<open>Creating a conversation\<close>

lemma Conversation_save_new:
  assumes "\<not> row_exists (\<lambda>c. c_id c = c_id conv) (conversations s)"
  shows "Conversation_save now conv s =
     (conv\<lparr>c_created_at := now, modified_at := now, is_summary_stale := True\<rparr>,
      s\<lparr>conversations := conversations s @
          [conv\<lparr>c_created_at := now, modified_at := now, is_summary_stale := True\<rparr>]\<rparr>)"
proof -
  have "map (\<lambda>c. if c_id c = c_id conv then c\<lparr>is_summary_stale := True\<rparr> else c) (conversations s)
        = conversations s"
    using assms by (auto simp: row_exists_def filter_empty_conv intro: map_idI)
  then show ?thesis
    using assms by (simp add: Conversation_save_def handle_conversation_save_def save_row_def Let_def)
qed

text \<open>
  C9. The claim: after creation \<open>is_summary_stale\<close> is true, the default being true
  and the creation forcing it true as well, and \<open>active_version\<close> is unset. On the
  code the default of the field is \<open>False\<close> (models.py, line 37), and
  \<open>ConversationSerializer.create\<close> passes an \<open>active_version\<close> of the validated data
  on to \<open>Conversation.objects.create\<close>: a conversation created with version 10 of
  \<open>store_one\<close> in its data has that version as its active version.
\<close>

theorem conversation_default_not_stale:
  "\<not> is_summary_stale (Conversation_defaults 2) \<and>
   fst (ConversationSerializer_create (\<lambda>vd. True) failing_summarizer 200 2
          \<lparr> cd_title = Some ''new'', cd_active_version = Some (Some (example_version 10 1)),
            cd_user = Some 7,
            cd_versions = [] \<rparr> store_one) =
     Inr ((Conversation_defaults 2)\<lparr>title := ''new'', c_created_at := 200, modified_at := 200,
            active_version := Some 10, c_user := 7, is_summary_stale := True\<rparr>)"
  by code_simp

text \<open>
  C9, as the code has it. \<open>Conversation.objects.create\<close> with a new id returns a
  conversation whose \<open>is_summary_stale\<close> is true, in the object and in the stored row:
  the default of the field is false, and the \<open>post_save\<close> receiver sets it on
  creation. Its \<open>active_version\<close> is the one the creation was given, unset when it
  was given none.
\<close>

theorem conversation_create_forces_stale:
  assumes "\<not> row_exists (\<lambda>c. c_id c = new_id) (conversations s)"
      and "Conversation_objects_create now new_id title_arg active_version_arg (Some u) s = (r, s')"
  shows "\<exists>conv. r = Inr conv \<and> c_id conv = new_id \<and> is_summary_stale conv \<and>
           active_version conv = active_version_arg \<and>
           objects_get (\<lambda>c. c_id c = new_id) (conversations s') = Inr conv \<and>
           \<not> is_summary_stale (Conversation_defaults new_id)"
proof -
  let ?conv = "(Conversation_defaults new_id)\<lparr>title := (case title_arg of Some t \<Rightarrow> t | None \<Rightarrow> title (Conversation_defaults new_id)),
                   active_version := active_version_arg, c_user := u\<rparr>"
  have id: "c_id ?conv = new_id" by (simp add: Conversation_defaults_def)
  have fresh: "\<not> row_exists (\<lambda>c. c_id c = c_id ?conv) (conversations s)"
    using assms(1) id by simp
  let ?c = "?conv\<lparr>c_created_at := now, modified_at := now, is_summary_stale := True\<rparr>"
  have r: "r = Inr ?c" and s': "s' = s\<lparr>conversations := conversations s @ [?c]\<rparr>"
    using assms Conversation_save_new [OF fresh, of now]
    by (auto simp: Conversation_objects_create_def Let_def)
  have "filter (\<lambda>c. c_id c = new_id) (conversations s) = []"
    using assms(1) by (simp add: row_exists_def)
  then have "objects_get (\<lambda>c. c_id c = new_id) (conversations s') = Inr ?c"
    using s' id by (simp add: objects_get_def)
  then show ?thesis
    using r id by (simp add: Conversation_defaults_def)
qed

theorem conversation_create_forces_stale_witness:
  "\<not> row_exists (\<lambda>c. c_id c = 2) (conversations store_one) \<and>
   (\<exists>conv. fst (Conversation_objects_create 200 2 (Some ''new'') None (Some 7) store_one) = Inr conv \<and>
      is_summary_stale conv \<and> active_version conv = None)"
proof -
  let ?run = "Conversation_objects_create 200 2 (Some ''new'') None (Some 7) store_one"
  have h1: "\<not> row_exists (\<lambda>c. c_id c = 2) (conversations store_one)"
    by code_simp
  have h2: "?run = (fst ?run, snd ?run)"
    by simp
  show ?thesis
    using conversation_create_forces_stale [OF h1 h2] h1 by auto
qed

section \<open>Deleting old conversations\<close>

lemma collect_conversations_closed:
  "cascaded_conversations s cids = [] \<Longrightarrow> collect_conversations s cids = cids"
  by simp

lemma invariant_no_cascade:
  assumes "active_version_invariant s" and "set cids \<subseteq> c_id ` set (conversations s)"
  shows "cascaded_conversations s cids = []"
proof -
  have "\<not> (c_id c \<notin> set cids \<and>
            (case active_version c of None \<Rightarrow> False
             | Some vid \<Rightarrow> \<exists>v \<in> set (versions s). v_id v = vid \<and> v_conversation v \<in> set cids))"
    if c: "c \<in> set (conversations s)" for c
  proof (cases "active_version c")
    case None
    then show ?thesis by simp
  next
    case (Some vid)
    have "\<forall>v \<in> set (versions s). v_id v = vid \<longrightarrow> v_conversation v = c_id c"
      using assms(1) c Some by (auto simp: active_version_invariant_def active_version_ok_def)
    then show ?thesis using Some by auto
  qed
  then show ?thesis
    by (auto simp: cascaded_conversations_def filter_empty_conv)
qed

lemma cleanup_under_invariant:
  assumes "active_version_invariant s" and "distinct (map c_id (conversations s))"
  shows "conversations (snd (cleanup_old_conversations now days s)) =
           filter (\<lambda>c. \<not> c_created_at c < now - timedelta_days days) (conversations s) \<and>
         fst (cleanup_old_conversations now days s) =
           length (filter (\<lambda>c. c_created_at c < now - timedelta_days days) (conversations s)) +
           length (filter (\<lambda>v. v_conversation v \<in> c_id ` {c \<in> set (conversations s).
                      c_created_at c < now - timedelta_days days}) (versions s)) +
           length (filter (\<lambda>m. m_version m \<in> v_id ` {v \<in> set (versions s).
                      v_conversation v \<in> c_id ` {c \<in> set (conversations s).
                        c_created_at c < now - timedelta_days days}}) (messages s))"
proof -
  let ?old = "\<lambda>c. c_created_at c < now - timedelta_days days"
  let ?qs = "filter ?old (conversations s)"
  have sub: "set (map c_id ?qs) \<subseteq> c_id ` set (conversations s)" by auto
  have col: "collect_conversations s (map c_id ?qs) = map c_id ?qs"
    using invariant_no_cascade [OF assms(1) sub] by simp
  have inj: "inj_on c_id (set (conversations s))"
    using assms(2) by (simp add: distinct_map)
  have mem: "c_id c \<in> set (map c_id ?qs) \<longleftrightarrow> ?old c" if "c \<in> set (conversations s)" for c
    using that inj by (auto simp: inj_on_def)
  have f1: "filter (\<lambda>c. c_id c \<notin> set (map c_id ?qs)) (conversations s) =
            filter (\<lambda>c. \<not> ?old c) (conversations s)"
    using mem by (intro filter_cong) auto
  have f2: "filter (\<lambda>c. c_id c \<in> set (map c_id ?qs)) (conversations s) = ?qs"
    using mem by (intro filter_cong) auto
  have ids: "set (map c_id ?qs) = c_id ` {c \<in> set (conversations s). ?old c}"
    by auto
  show ?thesis
    unfolding cleanup_old_conversations_def queryset_delete_def Let_def col
    using f1 f2 ids by simp
qed

text \<open>
  The command deletes through the same \<open>queryset.delete()[0]\<close>; its preview reads
  \<open>conv.messages\<close> and raises.
\<close>

lemma handle_counts_cascaded_rows:
  "fst (handle (\<lambda>u. ''alice'') (100 * 86400) 30 False None ''YES'' store_ages) = Inr (Some 5)"
  by code_simp

lemma handle_dry_run_raises:
  "handle (\<lambda>u. ''alice'') (100 * 86400) 30 True None [] store_ages = (Inl AttributeError, store_ages)"
  by code_simp

text \<open>
  C5. The claim: the cleanup deletes the conversations created before the cutoff and
  returns how many conversations it deleted; with conversations aged 10, 31 and 60 days
  and a cutoff of 30 days the count is 2. On the code, in \<open>store_ages\<close> with
  \<open>now\<close> at day 100, two conversations are older than 30 days and only the one aged
  10 days is left, but the number returned is 5: the conversation aged 31 days has a
  version with two messages, and the first element of the tuple of \<open>delete()\<close> counts
  the cascaded rows as well.
\<close>

theorem cleanup_counts_cascaded_rows:
  "cleanup_old_conversations (100 * 86400) 30 store_ages =
     (5, store_ages\<lparr>conversations := [example_conversation 1 (90 * 86400)],
                     versions := [], messages := []\<rparr>) \<and>
   length (filter (\<lambda>c. c_created_at c < 100 * 86400 - timedelta_days 30) (conversations store_ages)) = 2"
  by code_simp

section \<open>Uploading a file twice\<close>

text \<open>The hexadecimal form has 64 digits and loses nothing of the digest.\<close>

lemma length_hexdigest: "length (hexdigest w) = 64"
  by (simp add: hexdigest_def)

lemma hex_digit_inj:
  assumes "m < 16" and "n < 16" and "hex_digit m = hex_digit n"
  shows "m = n"
proof -
  have d: "distinct ''0123456789abcdef''" by simp
  have l: "length ''0123456789abcdef'' = 16" by simp
  show ?thesis
    using assms nth_eq_iff_index_eq [OF d, of m n] l by (simp add: hex_digit_def)
qed

lemma hexdigest_nibbles:
  assumes "hexdigest w = hexdigest w'" and "j < 64"
  shows "unat (drop_bit (4 * j) w) mod 16 = unat (drop_bit (4 * j) w') mod 16"
proof -
  have i: "63 - j < 64" by simp
  have "hexdigest w ! (63 - j) = hexdigest w' ! (63 - j)"
    using assms(1) by simp
  then have "hex_digit (unat (drop_bit (4 * (63 - (63 - j))) w) mod 16) =
             hex_digit (unat (drop_bit (4 * (63 - (63 - j))) w') mod 16)"
    using i by (simp add: hexdigest_def del: upt_Suc)
  moreover have "63 - (63 - j) = j" using assms(2) by simp
  ultimately have "hex_digit (unat (drop_bit (4 * j) w) mod 16) =
             hex_digit (unat (drop_bit (4 * j) w') mod 16)"
    by simp
  then show ?thesis
    by (intro hex_digit_inj) simp_all
qed

lemma hexdigest_inj:
  assumes "hexdigest w = hexdigest w'"
  shows "w = w'"
proof (rule bit_word_eqI)
  fix n
  assume n: "n < LENGTH(256)"
  let ?j = "n div 4" and ?r = "n mod 4"
  have j: "?j < 64" using n by simp
  have r: "?r < 4" by simp
  have split: "4 * ?j + ?r = n" by simp
  have nib: "take_bit 4 (unat (drop_bit (4 * ?j) w)) = take_bit 4 (unat (drop_bit (4 * ?j) w'))"
    using hexdigest_nibbles [OF assms j] by (simp add: take_bit_eq_mod)
  have b: "bit x n \<longleftrightarrow> bit (take_bit 4 (unat (drop_bit (4 * ?j) x))) ?r" for x :: "256 word"
  proof -
    have "bit (take_bit 4 (unat (drop_bit (4 * ?j) x))) ?r \<longleftrightarrow> bit (unat (drop_bit (4 * ?j) x)) ?r"
      using r by (simp add: bit_take_bit_iff)
    also have "\<dots> \<longleftrightarrow> bit (drop_bit (4 * ?j) x) ?r"
      by (simp add: bit_unsigned_iff)
    also have "\<dots> \<longleftrightarrow> bit x (4 * ?j + ?r)"
      by (simp add: bit_drop_bit_eq)
    finally show ?thesis using split by simp
  qed
  show "bit w n \<longleftrightarrow> bit w' n"
    using b [of w] b [of w'] nib by simp
qed

lemma hexdigest_example: "hexdigest 0x1f = replicate 62 CHR ''0'' @ ''1f''"
  by code_simp

lemma calculate_file_hash_eq:
  "calculate_file_hash sha256 f = calculate_file_hash sha256 g \<longleftrightarrow>
   sha256 (concat (file_chunks f)) = sha256 (concat (file_chunks g))"
  using hexdigest_inj by (auto simp: calculate_file_hash_def)

lemma UploadedFile_save_keeps_hash:
  assumes "file_hash f \<noteq> []" and "UploadedFile_save digest now force_insert f s = (Inr f', s')"
  shows "file_hash f' = file_hash f"
  using assms by (auto simp: UploadedFile_save_def Let_def split: if_splits)

lemma upload_first:
  assumes name: "file_name a \<noteq> []"
      and fresh: "\<not> row_exists (\<lambda>x. f_id x = new_id) (uploaded_files s)"
      and nodup: "\<not> row_exists (\<lambda>x. file_hash x = hexdigest (sha256 (concat (file_chunks a))))
                    (uploaded_files s)"
      and conv: "case conv of None \<Rightarrow> True | Some c \<Rightarrow> row_exists (\<lambda>x. c_id x = c) (conversations s)"
  shows "\<exists>f. upload_file sha256 now new_id (Some u) conv a s =
               (Inr f, s\<lparr>uploaded_files := uploaded_files s @ [f]\<rparr>) \<and>
             file_hash f = hexdigest (sha256 (concat (file_chunks a))) \<and> f_id f = new_id \<and>
             f_file f = a \<and> filename f = file_name a \<and>
             file_size f = length (concat (file_chunks a)) \<and> status f = ''pending''"
proof -
  let ?h = "hexdigest (sha256 (concat (file_chunks a)))"
  let ?d = "(UploadedFile_defaults new_id a)\<lparr>f_user := u, f_conversation := conv\<rparr>"
  let ?f = "?d\<lparr>filename := file_name a, file_size := length (concat (file_chunks a)),
                 file_type := (if CHR ''.'' \<in> set (file_name a) then after_last_dot (file_name a) else [])\<rparr>"
  let ?f2 = "?f\<lparr>file_hash := ?h, uploaded_at := now\<rparr>"
  have v: "validate_file sha256 a s = Inr a"
    using nodup by (simp add: validate_file_def calculate_file_hash_def)
  have nd: "\<not> row_exists (\<lambda>x. file_hash x = ?h \<and> f_id x \<noteq> new_id) (uploaded_files s)"
    using nodup by (auto simp: row_exists_def filter_empty_conv)
  have cv: "\<not> (case conv of None \<Rightarrow> False | Some c \<Rightarrow> \<not> row_exists (\<lambda>x. c_id x = c) (conversations s))"
    using conv by (cases conv) auto
  have "UploadedFile_save sha256 now True ?f s = (Inr ?f2, s\<lparr>uploaded_files := uploaded_files s @ [?f2]\<rparr>)"
    using name fresh nd cv
    by (simp add: UploadedFile_save_def Let_def UploadedFile_defaults_def save_row_def
          calculate_file_hash_def)
  then have "upload_file sha256 now new_id (Some u) conv a s =
               (Inr ?f2, s\<lparr>uploaded_files := uploaded_files s @ [?f2]\<rparr>)"
    using v name by (simp add: upload_file_def UploadedFileSerializer_create_def Let_def)
  then show ?thesis
    by (intro exI [of _ ?f2]) (simp add: UploadedFile_defaults_def)
qed

text \<open>A file without a name is not stored: its row has no \<open>file_size\<close>.\<close>

lemma nameless_upload_fails:
  "file_name a = [] \<Longrightarrow>
   \<not> row_exists (\<lambda>x. file_hash x = calculate_file_hash sha256 a) (uploaded_files s) \<Longrightarrow>
   upload_file sha256 now new_id (Some u) conv a s = (Inl IntegrityError, s)"
  by (simp add: upload_file_def validate_file_def UploadedFileSerializer_create_def Let_def)

text \<open>
  C6. A first upload of a named file, with a new id, a user, a content whose hash no
  stored row has, and no conversation or an existing one, succeeds: one row is added,
  its \<open>file_hash\<close> is the 64 hexadecimal digits of the SHA-256 digest of the bytes of
  the file, and a query by that hash finds the row. Any later upload of a file with the
  same bytes, under any name, chunking, user or id, is rejected by \<open>validate_file\<close>
  with the \<open>ValidationError\<close> of a duplicate, and the store is unchanged; a file with
  another digest, which was no duplicate before, is still accepted. A later save of the
  stored row, with any file in it and any digest function at hand, returns the row with
  the hash of the first upload: \<open>save\<close> computes a hash only when the row has none.
\<close>

theorem duplicate_upload_rejected:
  assumes "file_name a \<noteq> []"
      and "\<not> row_exists (\<lambda>x. f_id x = id_a) (uploaded_files s)"
      and "\<not> row_exists (\<lambda>x. file_hash x = hexdigest (sha256 (concat (file_chunks a))))
             (uploaded_files s)"
      and "case conv_a of None \<Rightarrow> True | Some c \<Rightarrow> row_exists (\<lambda>x. c_id x = c) (conversations s)"
      and "concat (file_chunks b) = concat (file_chunks a)"
  shows "\<exists>f s1. upload_file sha256 now id_a (Some u) conv_a a s = (Inr f, s1) \<and>
           uploaded_files s1 = uploaded_files s @ [f] \<and>
           file_hash f = hexdigest (sha256 (concat (file_chunks a))) \<and>
           length (file_hash f) = 64 \<and>
           objects_get (\<lambda>x. file_hash x = hexdigest (sha256 (concat (file_chunks a))))
             (uploaded_files s1) = Inr f \<and>
           upload_file sha256 later id_b user_b conv_b b s1 =
             (Inl (ValidationError duplicate_message), s1) \<and>
           (\<forall>c. sha256 (concat (file_chunks c)) \<noteq> sha256 (concat (file_chunks a)) \<longrightarrow>
                \<not> row_exists (\<lambda>x. file_hash x = hexdigest (sha256 (concat (file_chunks c))))
                    (uploaded_files s) \<longrightarrow>
                validate_file sha256 c s1 = Inr c) \<and>
           (\<forall>digest x t forced s2 f' s3.
               UploadedFile_save digest t forced (f\<lparr>f_file := x\<rparr>) s2 = (Inr f', s3) \<longrightarrow>
               file_hash f' = hexdigest (sha256 (concat (file_chunks a))))"
proof -
  let ?h = "hexdigest (sha256 (concat (file_chunks a)))"
  obtain f where up: "upload_file sha256 now id_a (Some u) conv_a a s =
        (Inr f, s\<lparr>uploaded_files := uploaded_files s @ [f]\<rparr>)"
    and hash: "file_hash f = ?h" and fid: "f_id f = id_a"
    using upload_first [of a id_a s sha256 conv_a now u] assms(1-4) by blast
  let ?s1 = "s\<lparr>uploaded_files := uploaded_files s @ [f]\<rparr>"
  have files: "uploaded_files ?s1 = uploaded_files s @ [f]" by simp
  have len: "length (file_hash f) = 64"
    using hash length_hexdigest by simp
  have none: "filter (\<lambda>x. file_hash x = ?h) (uploaded_files s) = []"
    using assms(3) by (simp add: row_exists_def)
  have get: "objects_get (\<lambda>x. file_hash x = ?h) (uploaded_files ?s1) = Inr f"
    using none hash by (simp add: objects_get_def)
  have same: "calculate_file_hash sha256 b = ?h"
    using assms(5) by (simp add: calculate_file_hash_def)
  have "row_exists (\<lambda>x. file_hash x = calculate_file_hash sha256 b) (uploaded_files ?s1)"
    using hash same by (simp add: row_exists_def)
  then have dup: "upload_file sha256 later id_b user_b conv_b b ?s1 =
             (Inl (ValidationError duplicate_message), ?s1)"
    by (simp add: upload_file_def validate_file_def)
  have other: "validate_file sha256 c ?s1 = Inr c"
    if "sha256 (concat (file_chunks c)) \<noteq> sha256 (concat (file_chunks a))"
       "\<not> row_exists (\<lambda>x. file_hash x = hexdigest (sha256 (concat (file_chunks c))))
            (uploaded_files s)" for c
  proof -
    have "hexdigest (sha256 (concat (file_chunks c))) \<noteq> ?h"
      using that(1) hexdigest_inj by auto
    then show ?thesis
      using hash that(2) by (simp add: validate_file_def row_exists_def calculate_file_hash_def)
  qed
  have keep: "file_hash f' = ?h"
    if "UploadedFile_save digest t forced (f\<lparr>f_file := x\<rparr>) s2 = (Inr f', s3)"
    for digest x t forced s2 f' s3
  proof -
    have "file_hash (f\<lparr>f_file := x\<rparr>) \<noteq> []"
      using len by auto
    then show ?thesis
      using UploadedFile_save_keeps_hash [OF _ that] hash by simp
  qed
  show ?thesis
    using up files hash len get dup other keep by blast
qed


theorem duplicate_upload_rejected_witness:
  "file_name file_a \<noteq> [] \<and>
   \<not> row_exists (\<lambda>x. f_id x = 1) (uploaded_files store_one) \<and>
   \<not> row_exists (\<lambda>x. file_hash x = hexdigest (example_digest (concat (file_chunks file_a))))
       (uploaded_files store_one) \<and>
   concat (file_chunks file_b) = concat (file_chunks file_a) \<and>
   hexdigest (example_digest (concat (file_chunks file_a))) = replicate 63 CHR ''0'' @ ''6'' \<and>
   (\<exists>f s1. upload_file example_digest 200 1 (Some 7) None file_a store_one = (Inr f, s1) \<and>
      file_hash f = replicate 63 CHR ''0'' @ ''6'' \<and>
      upload_file example_digest 300 2 (Some 8) None file_b s1 =
        (Inl (ValidationError duplicate_message), s1))"
proof -
  have h1: "file_name file_a \<noteq> []"
    by (simp add: file_a_def)
  have h2: "\<not> row_exists (\<lambda>x. f_id x = 1) (uploaded_files store_one)"
    by (simp add: row_exists_def store_one_def empty_store_def)
  have h3: "\<not> row_exists (\<lambda>x. file_hash x = hexdigest (example_digest (concat (file_chunks file_a))))
              (uploaded_files store_one)"
    by (simp add: row_exists_def store_one_def empty_store_def)
  have h4: "case None :: uuid option of None \<Rightarrow> True
            | Some c \<Rightarrow> row_exists (\<lambda>x. c_id x = c) (conversations store_one)"
    by simp
  have h5: "concat (file_chunks file_b) = concat (file_chunks file_a)"
    by (simp add: file_a_def file_b_def)
  have h6: "hexdigest (example_digest (concat (file_chunks file_a))) = replicate 63 CHR ''0'' @ ''6''"
    by code_simp
  obtain f s1 where first: "upload_file example_digest 200 1 (Some 7) None file_a store_one = (Inr f, s1)"
      and stored: "file_hash f = hexdigest (example_digest (concat (file_chunks file_a)))"
      and second: "upload_file example_digest 300 2 (Some 8) None file_b s1 =
                     (Inl (ValidationError duplicate_message), s1)"
    using duplicate_upload_rejected
            [of file_a 1 store_one example_digest None file_b 200 7 300 2 "Some 8" None]
          h1 h2 h3 h4 h5
    by blast
  have "\<exists>f s1. upload_file example_digest 200 1 (Some 7) None file_a store_one = (Inr f, s1) \<and>
      file_hash f = replicate 63 CHR ''0'' @ ''6'' \<and>
      upload_file example_digest 300 2 (Some 8) None file_b s1 =
        (Inl (ValidationError duplicate_message), s1)"
    using first stored second h6 by (intro exI [of _ f] exI [of _ s1]) (simp only: simp_thms)
  then show ?thesis
    using h1 h2 h3 h5 h6 by blast
qed

section \<open>The active version over sequences of mutations\<close>




























end
